theory Spec2Isabelle
  imports Complex_Main "HOL-Library.Word"
begin

section \<open>Single and double precision arithmetic\<close>

text \<open>
  The tracker computes in C++ \<open>float\<close>; the monitor scale is a \<open>double\<close>. A floating
  point value is modelled by the real number it denotes, and every arithmetic operation of
  the source by the exact operation followed by rounding to the format: to nearest, ties to
  even, with 24 significant bits for \<open>float\<close> and 53 for \<open>double\<close>, the quantum of small
  values fixed at the smallest exponent (gradual underflow). Comparisons, \<open>std::min\<close>,
  \<open>std::max\<close>, \<open>std::abs\<close>, \<open>std::floor\<close> and \<open>std::ceil\<close> are exact and need no
  rounding. Infinities and NaN are not values of the model: a result beyond the largest
  finite value is rounded on the grid of the largest exponent instead.
\<close>

definition round_half_even :: "real \<Rightarrow> int" where
  "round_half_even y =
     (let f = \<lfloor>y\<rfloor>; d = y - of_int f
      in if d < 1/2 then f else if 1/2 < d then f + 1 else if even f then f else f + 1)"

text \<open>
  The exponent of a magnitude: the largest \<open>e\<close> from \<open>s\<close> down to \<open>s - n\<close> with
  \<open>2 ^ e \<le> x\<close>, and \<open>s - n\<close> when there is none.
\<close>

fun expo_scan :: "nat \<Rightarrow> int \<Rightarrow> real \<Rightarrow> int" where
  "expo_scan 0 e x = e"
| "expo_scan (Suc n) e x = (if 2 powi e \<le> x then e else expo_scan n (e - 1) x)"

definition fl_expo :: "int \<Rightarrow> int \<Rightarrow> real \<Rightarrow> int" where
  "fl_expo emin emax x = expo_scan (nat (emax - emin)) emax \<bar>x\<bar>"

definition fl_round :: "nat \<Rightarrow> int \<Rightarrow> int \<Rightarrow> real \<Rightarrow> real" where
  "fl_round p emin emax x =
     (let q = 2 powi (fl_expo emin emax x - int p + 1)
      in of_int (round_half_even (x / q)) * q)"

definition f32 :: "real \<Rightarrow> real" where
  "f32 = fl_round 24 (-126) 127"

definition f64 :: "real \<Rightarrow> real" where
  "f64 = fl_round 53 (-1022) 1023"

text \<open>\<open>std::clamp(v, lo, hi)\<close>, as the standard library computes it.\<close>

definition std_clamp :: "'a::linorder \<Rightarrow> 'a \<Rightarrow> 'a \<Rightarrow> 'a" where
  "std_clamp v lo hi = (if v < lo then lo else if hi < v then hi else v)"

text \<open>\<open>std::lround\<close> and \<open>std::round\<close>: to the nearest integer, halves away from zero.\<close>

definition lround :: "real \<Rightarrow> int" where
  "lround y = (if 0 \<le> y then \<lfloor>y + 1/2\<rfloor> else - \<lfloor>- y + 1/2\<rfloor>)"

text \<open>Integer division of C++: the quotient is truncated towards zero.\<close>

definition cdiv :: "int \<Rightarrow> int \<Rightarrow> int" where
  "cdiv a b = (if (a < 0) = (b < 0) then \<bar>a\<bar> div \<bar>b\<bar> else - (\<bar>a\<bar> div \<bar>b\<bar>))"

section \<open>TrackingManager: the selected text\<close>











section \<open>CaptureEngine: frames, loss of the session, reinitialisation\<close>

text \<open>
  The COM pointers of \<open>CaptureEngine\<close> (capture\_engine.h) are modelled by whether they
  hold an object; \<open>source_monitor_\<close> keeps the monitor handle it was initialised for.
\<close>

record capture_engine =
  device :: bool
  duplication :: bool
  staging :: bool
  current_frame :: bool
  frame_acquired :: bool
  source_monitor :: "nat option"
  needs_reinitialize :: bool

text \<open>The HRESULT of \<open>IDXGIOutputDuplication::AcquireNextFrame\<close>, as the code tells them apart.\<close>

datatype acquire_hr = S_OK | WAIT_TIMEOUT | ACCESS_LOST | OTHER_FAILURE

text \<open>
  \<open>AcquireFrame\<close>: the first argument is the result of \<open>AcquireNextFrame\<close>, the second
  whether \<open>resource.As(&current_frame_)\<close> succeeds. The result is the engine afterwards and
  whether a frame is returned (\<open>std::nullopt\<close> is \<open>False\<close>).
\<close>

definition AcquireFrame :: "acquire_hr \<Rightarrow> bool \<Rightarrow> capture_engine \<Rightarrow> capture_engine \<times> bool" where
  "AcquireFrame hr as_ok c =
     (if \<not> duplication c then (c, False)
      else
        let c1 = (if frame_acquired c
                  then c\<lparr>frame_acquired := False, current_frame := False\<rparr> else c)
        in case hr of
             WAIT_TIMEOUT \<Rightarrow> (c1, False)
           | ACCESS_LOST \<Rightarrow>
               (c1\<lparr>staging := False, frame_acquired := False, current_frame := False,
                    needs_reinitialize := True, duplication := False\<rparr>, False)
           | OTHER_FAILURE \<Rightarrow>
               (c1\<lparr>duplication := False, staging := False, frame_acquired := False,
                    current_frame := False, needs_reinitialize := True\<rparr>, False)
           | S_OK \<Rightarrow>
               if \<not> as_ok
               then (c1\<lparr>frame_acquired := False, current_frame := False\<rparr>, False)
               else (c1\<lparr>frame_acquired := False, current_frame := False\<rparr>, True))"

text \<open>
  \<open>CreateDuplication\<close> talks to DXGI only; what matters to the engine is how far it got.
  It fails before \<open>DuplicateOutput\<close> (nothing changed), at \<open>DuplicateOutput\<close>
  (\<open>duplication_\<close> is left as the call left it, null), at \<open>CreateTexture2D\<close> (the
  duplication exists, the staging texture does not), or it succeeds.
\<close>

datatype create_outcome = NO_OUTPUT | DUPLICATE_FAILED | TEXTURE_FAILED | CREATED

definition CreateDuplication :: "create_outcome \<Rightarrow> capture_engine \<Rightarrow> capture_engine \<times> bool" where
  "CreateDuplication outcome c =
     (case outcome of
        NO_OUTPUT \<Rightarrow> (c, False)
      | DUPLICATE_FAILED \<Rightarrow> (c\<lparr>duplication := False\<rparr>, False)
      | TEXTURE_FAILED \<Rightarrow> (c\<lparr>duplication := True, staging := False\<rparr>, False)
      | CREATED \<Rightarrow> (c\<lparr>duplication := True, staging := True\<rparr>, True))"

text \<open>\<open>EnsureDevice\<close>: an existing device is kept; otherwise \<open>D3D11CreateDevice\<close> decides.\<close>

definition EnsureDevice :: "bool \<Rightarrow> capture_engine \<Rightarrow> capture_engine \<times> bool" where
  "EnsureDevice create_ok c =
     (if device c then (c, True)
      else if create_ok then (c\<lparr>device := True\<rparr>, True) else (c, False))"

definition Reinitialize :: "bool \<Rightarrow> create_outcome \<Rightarrow> capture_engine \<Rightarrow> capture_engine \<times> bool" where
  "Reinitialize create_ok outcome c =
     (if source_monitor c = None then (c, False)
      else
        let (c1, have_device) = EnsureDevice create_ok c in
        if \<not> have_device then (c1, False)
        else
          let c2 = c1\<lparr>duplication := False, staging := False,
                      frame_acquired := False, current_frame := False\<rparr>;
              (c3, created) = CreateDuplication outcome c2
          in if \<not> created then (c3\<lparr>needs_reinitialize := True\<rparr>, False)
             else (c3\<lparr>needs_reinitialize := False\<rparr>, True))"

definition NeedsReinitialize :: "capture_engine \<Rightarrow> bool" where
  "NeedsReinitialize c = needs_reinitialize c"

text \<open>A running engine: initialised for monitor 1, nothing pending.\<close>

definition engine_running :: capture_engine where
  "engine_running = \<lparr>device = True, duplication = True, staging = True, current_frame = False,
                      frame_acquired = False, source_monitor = Some 1, needs_reinitialize = False\<rparr>"

section \<open>The viewport tracker of App\<close>

subsection \<open>Data\<close>

text \<open>
  \<open>POINT\<close> and \<open>RECT\<close> hold \<open>LONG\<close> coordinates; they are modelled as integers (screen
  coordinates stay far from the 32-bit limits). Tick counts are \<open>ULONGLONG\<close>: 64-bit words,
  whose subtraction wraps.
\<close>

record POINT =
  pt_x :: int
  pt_y :: int

record RECT =
  r_left :: int
  r_top :: int
  r_right :: int
  r_bottom :: int

record FloatPoint =
  fp_x :: real
  fp_y :: real

record FloatRect =
  fr_left :: real
  fr_top :: real
  fr_right :: real
  fr_bottom :: real

datatype TrackingMode = Auto | Caret | Mouse | Focus | Manual

record ViewState =
  source_region :: RECT
  vs_zoom :: real
  cursor_visible :: bool
  vs_invert_colors :: bool
  cursor_x :: real
  cursor_y :: real

text \<open>Of \<open>MonitorInfo\<close> the tracker reads the bounds and the scale.\<close>

record MonitorInfo =
  bounds :: RECT
  scale :: real

type_synonym tick = "64 word"

text \<open>
  The members of \<open>App\<close> (app.h) that tracking, clicks and zoom read or write, under their
  names without the trailing underscore. \<open>config_zoom\<close> and \<open>config_saves\<close> stand for
  \<open>config_->Data().zoom\<close> and the calls of \<open>config_->Save()\<close>, \<open>layout_overlay\<close> for the
  last \<open>ShowLayoutOverlay\<close> (the percentage shown and its duration), \<open>magnifier\<close> for the
  pointer \<open>magnifier_\<close> being set.
\<close>

record app =
  source_index :: int
  view_state :: ViewState
  mouse_position :: POINT
  caret_position :: POINT
  focus_rect :: RECT
  zoom :: real
  tracking_mode :: TrackingMode
  last_caret_tick :: tick
  last_caret_target_tick :: tick
  last_mouse_tick :: tick
  last_focus_tick :: tick
  current_center_x :: real
  current_center_y :: real
  has_center :: bool
  previous_center_x :: real
  previous_center_y :: real
  has_previous_center :: bool
  previous_center_saved_tick :: tick
  dead_zone_pixels :: real
  smoothing_factor :: real
  invert_colors :: bool
  last_user_activity_tick :: tick
  last_click_position :: POINT
  last_click_tick :: tick
  has_last_click :: bool
  click_lock_active :: bool
  last_click_source :: "FloatPoint option"
  messenger_zone_active :: bool
  messenger_zone_source :: FloatRect
  messenger_anchor :: POINT
  end_key_down :: bool
  end_alignment_active :: bool
  end_press_tick :: tick
  end_ignore_inputs_until :: tick
  has_putty_anchor :: bool
  putty_anchor_source :: FloatPoint
  magnifier :: bool
  magnifier_active :: bool
  config_zoom :: real
  config_saves :: nat
  layout_overlay :: "(int \<times> nat) option"

text \<open>
  What the system and the other components answer during one call: \<open>GetTickCount64()\<close>,
  \<open>capture_->FrameDesc()\<close>, \<open>SourceMonitor()\<close>,
  \<open>GetForegroundWindowRectIfMatches({L"putty"})\<close> and \<open>IsMessengerProcess()\<close>.
\<close>

record env =
  now :: tick
  desc_Width :: "32 word"
  desc_Height :: "32 word"
  monitor :: MonitorInfo
  foreground_putty :: "RECT option"
  is_messenger :: bool

subsection \<open>Constants (app.cpp, lines 31 to 45)\<close>

definition kMinZoom :: real where "kMinZoom = 1"
definition kMaxZoom :: real where "kMaxZoom = 12"
definition kCaretFollowTimeoutMs :: tick where "kCaretFollowTimeoutMs = 600"
definition kMouseFollowTimeoutMs :: tick where "kMouseFollowTimeoutMs = 160"
definition kFocusFollowTimeoutMs :: tick where "kFocusFollowTimeoutMs = 900"
definition kPreviousCenterRecordThreshold :: real where "kPreviousCenterRecordThreshold = 160"
definition kPreviousCenterRecordCooldownMs :: tick where "kPreviousCenterRecordCooldownMs = 500"
definition kClickLimitPixelsPerSecond :: real where "kClickLimitPixelsPerSecond = 50"
definition kEndHoldThresholdMs :: tick where "kEndHoldThresholdMs = 1000"

subsection \<open>Screen to source coordinates\<close>

definition PointInRect :: "RECT \<Rightarrow> POINT \<Rightarrow> bool" where
  "PointInRect rect pt \<longleftrightarrow>
     pt_x pt \<ge> r_left rect \<and> pt_x pt < r_right rect \<and> pt_y pt \<ge> r_top rect \<and> pt_y pt < r_bottom rect"

text \<open>
  \<open>App::ScreenToSource\<close>: the offset inside the monitor is an integer, multiplied by the
  \<open>double\<close> scale and converted to \<open>float\<close>.
\<close>

definition ScreenToSource :: "env \<Rightarrow> app \<Rightarrow> POINT \<Rightarrow> FloatPoint option" where
  "ScreenToSource e s pt =
     (if source_index s < 0 then None
      else if \<not> PointInRect (bounds (monitor e)) pt then None
      else Some \<lparr>fp_x = f32 (f64 (of_int (pt_x pt - r_left (bounds (monitor e))) * scale (monitor e))),
                 fp_y = f32 (f64 (of_int (pt_y pt - r_top (bounds (monitor e))) * scale (monitor e)))\<rparr>)"

text \<open>The lambda \<open>rect_center_to_source\<close> of \<open>UpdateViewState\<close>.\<close>

definition rect_center_to_source :: "env \<Rightarrow> app \<Rightarrow> RECT \<Rightarrow> FloatPoint option" where
  "rect_center_to_source e s rect =
     ScreenToSource e s
       \<lparr>pt_x = r_left rect + cdiv (r_right rect - r_left rect) 2,
        pt_y = r_top rect + cdiv (r_bottom rect - r_top rect) 2\<rparr>"

subsection \<open>The click limit and the snap\<close>

text \<open>
  \<open>App::ApplyClickMovementLimit(x, y, now)\<close>: the application afterwards and the two
  coordinates, which the source passes by reference.
\<close>

definition click_limit :: "env \<Rightarrow> app \<Rightarrow> real" where
  "click_limit e s =
     (let elapsed_ms = f32 (real (unat (now e - last_click_tick s)));
          elapsed_ms = (if elapsed_ms < 0 then 0 else elapsed_ms)
      in f32 (kClickLimitPixelsPerSecond * f32 (elapsed_ms / 1000)))"

definition limit_to_click :: "env \<Rightarrow> app \<Rightarrow> FloatPoint \<Rightarrow> real \<Rightarrow> real \<Rightarrow> real \<times> real" where
  "limit_to_click e s c x y =
     (let limit = click_limit e s
      in if limit \<le> 0 then (fp_x c, fp_y c)
         else (std_clamp x (f32 (fp_x c - limit)) (f32 (fp_x c + limit)),
               std_clamp y (f32 (fp_y c - limit)) (f32 (fp_y c + limit))))"

definition ApplyClickMovementLimit :: "env \<Rightarrow> real \<Rightarrow> real \<Rightarrow> app \<Rightarrow> app \<times> real \<times> real" where
  "ApplyClickMovementLimit e x y s =
     (if \<not> click_lock_active s \<or> \<not> has_last_click s then (s, x, y)
      else
        (case last_click_source s of
           Some c \<Rightarrow> (s, limit_to_click e s c x y)
         | None \<Rightarrow>
             (case ScreenToSource e s (last_click_position s) of
                Some c \<Rightarrow> (s\<lparr>last_click_source := Some c\<rparr>, limit_to_click e s c x y)
              | None \<Rightarrow> (s\<lparr>click_lock_active := False\<rparr>, x, y))))"

text \<open>The distance the source computes with \<open>std::sqrt(dx * dx + dy * dy)\<close>.\<close>

definition distance :: "real \<Rightarrow> real \<Rightarrow> real" where
  "distance dx dy = f32 (sqrt (f32 (f32 (dx * dx) + f32 (dy * dy))))"

text \<open>The block that saves the centre before a jump (in \<open>SnapCenterTo\<close> and in the smoothing step).\<close>

definition record_previous_center :: "env \<Rightarrow> real \<Rightarrow> app \<Rightarrow> app" where
  "record_previous_center e dst s =
     (if dst \<ge> kPreviousCenterRecordThreshold
      then (if \<not> has_previous_center s
               \<or> now e - previous_center_saved_tick s \<ge> kPreviousCenterRecordCooldownMs
            then s\<lparr>previous_center_x := current_center_x s,
                   previous_center_y := current_center_y s,
                   has_previous_center := True,
                   previous_center_saved_tick := now e\<rparr>
            else s)
      else s)"

definition SnapCenterTo :: "env \<Rightarrow> real \<Rightarrow> real \<Rightarrow> bool \<Rightarrow> app \<Rightarrow> app" where
  "SnapCenterTo e x y ignore_click_limit s =
     (let (s1, x1, y1) = (if \<not> ignore_click_limit then ApplyClickMovementLimit e x y s
                          else (s, x, y))
      in if \<not> has_center s1
         then s1\<lparr>current_center_x := x1, current_center_y := y1, has_center := True\<rparr>
         else
           (let dx = f32 (x1 - current_center_x s1);
                dy = f32 (y1 - current_center_y s1);
                s2 = record_previous_center e (distance dx dy) s1
            in s2\<lparr>current_center_x := x1, current_center_y := y1, has_center := True\<rparr>))"

subsection \<open>Choosing the target\<close>

text \<open>The locals \<open>target\<close>, \<open>have_target\<close> and \<open>target_is_caret\<close> of \<open>UpdateViewState\<close>.\<close>

record target_sel =
  target :: FloatPoint
  have_target :: bool
  target_is_caret :: bool

text \<open>
  The lambdas \<open>use_caret\<close>, \<open>use_mouse\<close> and \<open>use_focus\<close>: what each returns, and the
  application and the locals afterwards. The first argument after the environment is
  \<open>inputs_suppressed\<close>.
\<close>

definition use_caret :: "env \<Rightarrow> bool \<Rightarrow> app \<Rightarrow> target_sel \<Rightarrow> bool \<times> app \<times> target_sel" where
  "use_caret e inputs_suppressed s t =
     (if inputs_suppressed then (False, s, t)
      else
        (let t1 = t\<lparr>target_is_caret := False\<rparr>
         in if now e - last_caret_tick s > kCaretFollowTimeoutMs then (False, s, t1)
            else
              (case ScreenToSource e s (caret_position s) of
                 None \<Rightarrow> (False, s, t1)
               | Some caret_source \<Rightarrow>
                   (True,
                    s\<lparr>last_caret_target_tick := now e\<rparr>,
                    t1\<lparr>target := caret_source\<lparr>fp_x := f32 (fp_x caret_source + 4)\<rparr>,
                       have_target := True, target_is_caret := True\<rparr>))))"

definition use_mouse :: "env \<Rightarrow> bool \<Rightarrow> app \<Rightarrow> target_sel \<Rightarrow> bool \<times> app \<times> target_sel" where
  "use_mouse e inputs_suppressed s t =
     (if inputs_suppressed then (False, s, t)
      else if now e - last_mouse_tick s > kMouseFollowTimeoutMs then (False, s, t)
      else if tracking_mode s = Auto \<and> last_mouse_tick s \<le> last_caret_target_tick s
        then (False, s, t)
      else
        (case ScreenToSource e s (mouse_position s) of
           None \<Rightarrow> (False, s, t)
         | Some mouse_source \<Rightarrow>
             (True,
              (if tracking_mode s = Auto then s\<lparr>last_caret_target_tick := 0\<rparr> else s),
              t\<lparr>target := mouse_source, have_target := True\<rparr>)))"

definition use_focus :: "env \<Rightarrow> bool \<Rightarrow> app \<Rightarrow> target_sel \<Rightarrow> bool \<times> app \<times> target_sel" where
  "use_focus e inputs_suppressed s t =
     (if inputs_suppressed then (False, s, t)
      else if now e - last_focus_tick s > kFocusFollowTimeoutMs then (False, s, t)
      else
        (case rect_center_to_source e s (focus_rect s) of
           Some focus_source \<Rightarrow> (True, s, t\<lparr>target := focus_source, have_target := True\<rparr>)
         | None \<Rightarrow> (False, s, t)))"

text \<open>The \<open>switch (tracking_mode_)\<close>, started with the default target, the middle of the frame.\<close>

definition default_target :: "env \<Rightarrow> target_sel" where
  "default_target e =
     \<lparr>target = \<lparr>fp_x = f32 (f32 (real (unat (desc_Width e))) / 2),
                 fp_y = f32 (f32 (real (unat (desc_Height e))) / 2)\<rparr>,
      have_target = False, target_is_caret = False\<rparr>"

definition select_target :: "env \<Rightarrow> bool \<Rightarrow> app \<Rightarrow> app \<times> target_sel" where
  "select_target e inputs_suppressed s =
     (let t0 = default_target e in
      case tracking_mode s of
        Auto \<Rightarrow>
          (let (ok1, s1, t1) = use_caret e inputs_suppressed s t0 in
           if ok1 then (s1, t1)
           else
             (let (ok2, s2, t2) = use_mouse e inputs_suppressed s1 t1 in
              if ok2 then (s2, t2)
              else (let (ok3, s3, t3) = use_focus e inputs_suppressed s2 t2 in (s3, t3))))
      | Caret \<Rightarrow> (let (ok1, s1, t1) = use_caret e inputs_suppressed s t0 in (s1, t1))
      | Mouse \<Rightarrow> (let (ok2, s2, t2) = use_mouse e inputs_suppressed s t0 in (s2, t2))
      | Focus \<Rightarrow> (let (ok3, s3, t3) = use_focus e inputs_suppressed s t0 in (s3, t3))
      | Manual \<Rightarrow> (s, t0\<lparr>have_target := False\<rparr>))"

subsection \<open>The view rectangle\<close>

definition frame_width :: "env \<Rightarrow> real" where
  "frame_width e = f32 (real (unat (desc_Width e)))"

definition frame_height :: "env \<Rightarrow> real" where
  "frame_height e = f32 (real (unat (desc_Height e)))"

definition view_width :: "env \<Rightarrow> app \<Rightarrow> real" where
  "view_width e s = min (f32 (frame_width e / zoom s)) (frame_width e)"

definition view_height :: "env \<Rightarrow> app \<Rightarrow> real" where
  "view_height e s = min (f32 (frame_height e / zoom s)) (frame_height e)"

definition half_w :: "env \<Rightarrow> app \<Rightarrow> real" where
  "half_w e s = f32 (view_width e s / 2)"

definition half_h :: "env \<Rightarrow> app \<Rightarrow> real" where
  "half_h e s = f32 (view_height e s / 2)"

subsection \<open>The terminal anchor\<close>

text \<open>Lines 748 to 758: while the End key is involved, remember the bottom left of a PuTTY window.\<close>

definition capture_putty_anchor :: "env \<Rightarrow> app \<Rightarrow> app" where
  "capture_putty_anchor e s =
     (if end_key_down s \<or> end_alignment_active s
      then (case foreground_putty e of
              None \<Rightarrow> s
            | Some rect \<Rightarrow>
                (case ScreenToSource e s
                        \<lparr>pt_x = r_left rect, pt_y = max (r_top rect) (r_bottom rect - 1)\<rparr> of
                   None \<Rightarrow> s
                 | Some bottom_left_source \<Rightarrow>
                     s\<lparr>putty_anchor_source := bottom_left_source, has_putty_anchor := True\<rparr>))
      else s)"

text \<open>Lines 760 to 766.\<close>

definition update_end_alignment :: "env \<Rightarrow> app \<Rightarrow> app" where
  "update_end_alignment e s =
     (if end_key_down s
      then (if \<not> end_alignment_active s \<and> now e - end_press_tick s \<ge> kEndHoldThresholdMs
               \<and> has_putty_anchor s
            then s\<lparr>end_alignment_active := True\<rparr> else s)
      else if end_alignment_active s then s\<lparr>end_alignment_active := False\<rparr>
      else s)"

text \<open>Lines 768 to 777; \<open>putty_alignment_applied\<close> is the condition of the block.\<close>

definition putty_alignment_applied :: "app \<Rightarrow> bool" where
  "putty_alignment_applied s \<longleftrightarrow> end_alignment_active s \<and> has_putty_anchor s"

definition apply_putty_alignment :: "env \<Rightarrow> app \<Rightarrow> app" where
  "apply_putty_alignment e s =
     (let desired_left = std_clamp (fp_x (putty_anchor_source s)) 0
                           (f32 (frame_width e - view_width e s));
          desired_bottom = std_clamp (fp_y (putty_anchor_source s)) (view_height e s)
                             (frame_height e)
      in s\<lparr>current_center_x := f32 (desired_left + half_w e s),
            current_center_y := f32 (desired_bottom - half_h e s),
            has_center := True,
            messenger_zone_active := False\<rparr>)"

subsection \<open>Moving the centre\<close>

text \<open>Lines 786 to 803: the step towards a target that is not the caret.\<close>

definition smooth_step :: "env \<Rightarrow> FloatPoint \<Rightarrow> app \<Rightarrow> app" where
  "smooth_step e tgt s =
     (let dx = f32 (fp_x tgt - current_center_x s);
          dy = f32 (fp_y tgt - current_center_y s);
          dst = distance dx dy
      in if dst > dead_zone_pixels s
         then
           (let s1 = record_previous_center e dst s;
                new_center_x = f32 (current_center_x s1 + f32 (dx * smoothing_factor s1));
                new_center_y = f32 (current_center_y s1 + f32 (dy * smoothing_factor s1));
                (s2, x2, y2) = ApplyClickMovementLimit e new_center_x new_center_y s1
            in s2\<lparr>current_center_x := x2, current_center_y := y2\<rparr>)
         else s)"

text \<open>Lines 779 to 806.\<close>

definition move_center :: "env \<Rightarrow> target_sel \<Rightarrow> app \<Rightarrow> app" where
  "move_center e t s =
     (if \<not> has_center s then SnapCenterTo e (fp_x (target t)) (fp_y (target t)) False s
      else if have_target t
        then (if target_is_caret t
              then SnapCenterTo e (fp_x (target t)) (fp_y (target t)) True s
              else smooth_step e (target t) s)
      else s)"

text \<open>
  Lines 808 to 819: the reply strip of a messenger. The four locals \<open>min_allowed_x\<close>,
  \<open>max_allowed_x\<close>, \<open>min_allowed_y\<close> and \<open>max_allowed_y\<close>, and the test that they leave
  room.
\<close>

definition min_allowed_x :: "env \<Rightarrow> app \<Rightarrow> real" where
  "min_allowed_x e s = max (fr_left (messenger_zone_source s)) (half_w e s)"

definition max_allowed_x :: "env \<Rightarrow> app \<Rightarrow> real" where
  "max_allowed_x e s = min (fr_right (messenger_zone_source s)) (f32 (frame_width e - half_w e s))"

definition min_allowed_y :: "env \<Rightarrow> app \<Rightarrow> real" where
  "min_allowed_y e s = max (fr_top (messenger_zone_source s)) (half_h e s)"

definition max_allowed_y :: "env \<Rightarrow> app \<Rightarrow> real" where
  "max_allowed_y e s = min (fr_bottom (messenger_zone_source s)) (f32 (frame_height e - half_h e s))"

definition zone_fits :: "env \<Rightarrow> app \<Rightarrow> bool" where
  "zone_fits e s \<longleftrightarrow>
     min_allowed_x e s \<le> max_allowed_x e s \<and> min_allowed_y e s \<le> max_allowed_y e s"

definition messenger_clamp :: "env \<Rightarrow> app \<Rightarrow> app" where
  "messenger_clamp e s =
     (if messenger_zone_active s
      then (if zone_fits e s
            then s\<lparr>current_center_x :=
                     std_clamp (current_center_x s) (min_allowed_x e s) (max_allowed_x e s),
                   current_center_y :=
                     std_clamp (current_center_y s) (min_allowed_y e s) (max_allowed_y e s)\<rparr>
            else s\<lparr>messenger_zone_active := False\<rparr>)
      else s)"

text \<open>Lines 821 and 822.\<close>

definition frame_clamp :: "env \<Rightarrow> app \<Rightarrow> app" where
  "frame_clamp e s =
     s\<lparr>current_center_x := std_clamp (current_center_x s) (half_w e s)
                               (f32 (frame_width e - half_w e s)),
       current_center_y := std_clamp (current_center_y s) (half_h e s)
                               (f32 (frame_height e - half_h e s))\<rparr>"

text \<open>Lines 824 to 831.\<close>

definition write_source_region :: "env \<Rightarrow> app \<Rightarrow> app" where
  "write_source_region e s =
     (let left = f32 (current_center_x s - half_w e s);
          top = f32 (current_center_y s - half_h e s)
      in s\<lparr>view_state := (view_state s)
             \<lparr>source_region :=
                \<lparr>r_left = \<lfloor>left\<rfloor>, r_top = \<lfloor>top\<rfloor>,
                 r_right = \<lceil>f32 (left + view_width e s)\<rceil>,
                 r_bottom = \<lceil>f32 (top + view_height e s)\<rceil>\<rparr>,
              vs_zoom := zoom s\<rparr>\<rparr>)"

subsection \<open>One resolution\<close>

text \<open>Lines 626 to 652: the overlay fields, the expiry of the anchor, the cursor.\<close>

definition reset_overlay :: "app \<Rightarrow> app" where
  "reset_overlay s =
     s\<lparr>view_state := (view_state s)
          \<lparr>cursor_visible := False, vs_invert_colors := invert_colors s,
           cursor_x := 0, cursor_y := 0\<rparr>\<rparr>"

definition expire_putty_anchor :: "env \<Rightarrow> app \<Rightarrow> app" where
  "expire_putty_anchor e s =
     (if \<not> end_key_down s \<and> now e \<ge> end_ignore_inputs_until s
      then s\<lparr>has_putty_anchor := False\<rparr> else s)"

definition inputs_suppressed :: "env \<Rightarrow> app \<Rightarrow> bool" where
  "inputs_suppressed e s \<longleftrightarrow> now e < end_ignore_inputs_until s \<or> end_alignment_active s"

definition place_cursor :: "env \<Rightarrow> app \<Rightarrow> app" where
  "place_cursor e s =
     (case ScreenToSource e s (mouse_position s) of
        Some cursor \<Rightarrow>
          s\<lparr>view_state := (view_state s)
               \<lparr>cursor_visible := True, cursor_x := fp_x cursor, cursor_y := fp_y cursor\<rparr>\<rparr>
      | None \<Rightarrow> s)"

text \<open>
  The centre after the target is chosen and the anchor handled, before the two clamps
  (lines 748 to 806).
\<close>

definition resolve_center :: "env \<Rightarrow> target_sel \<Rightarrow> app \<Rightarrow> app" where
  "resolve_center e t s =
     (let s1 = update_end_alignment e (capture_putty_anchor e s)
      in if putty_alignment_applied s1 then apply_putty_alignment e s1
         else move_center e t s1)"

definition UpdateViewState :: "env \<Rightarrow> app \<Rightarrow> app" where
  "UpdateViewState e s =
     (if source_index s < 0 then s
      else if desc_Width e = 0 \<or> desc_Height e = 0 then s
      else
        (let s1 = expire_putty_anchor e (reset_overlay s);
             suppressed = inputs_suppressed e s1;
             s2 = place_cursor e s1;
             (s3, t) = select_target e suppressed s2
         in write_source_region e
              (frame_clamp e (messenger_clamp e (resolve_center e t s3)))))"

subsection \<open>Signals, clicks and zoom\<close>

text \<open>The callbacks registered in \<open>InitializeComponents\<close> (lines 217 to 243).\<close>

definition CaretCallback :: "env \<Rightarrow> POINT \<Rightarrow> app \<Rightarrow> app" where
  "CaretCallback e pt s =
     s\<lparr>caret_position := pt, last_caret_tick := now e, last_user_activity_tick := now e\<rparr>"


definition FocusCallback :: "env \<Rightarrow> RECT \<Rightarrow> app \<Rightarrow> app" where
  "FocusCallback e rect s =
     s\<lparr>focus_rect := rect, last_focus_tick := now e, last_user_activity_tick := now e\<rparr>"

text \<open>The reply strip of \<open>OnMouseLeftClick\<close> (lines 1423 to 1454).\<close>

definition messenger_zone :: "env \<Rightarrow> POINT \<Rightarrow> app \<Rightarrow> app" where
  "messenger_zone e pt s =
     (let b = bounds (monitor e);
          monitor_width = r_right b - r_left b;
          monitor_height = r_bottom b - r_top b
      in if source_index s \<ge> 0 \<and> is_messenger e \<and> monitor_width > 0 \<and> monitor_height > 0
         then
           (let strip_height = max (lround (f64 (of_int monitor_height * f64 (1/10)))) 1;
                strip_top = max (r_bottom b - strip_height) (r_top b)
            in if pt_y pt \<ge> strip_top \<and> pt_y pt < r_bottom b
                  \<and> pt_x pt \<ge> r_left b \<and> pt_x pt < r_right b
               then
                 (let restricted_left =
                        std_clamp (r_left b + lround (f64 (of_int monitor_width * (1/4))))
                          (r_left b) (r_right b - 1)
                  in if r_right b > restricted_left \<and> r_bottom b > strip_top
                     then
                       (case (ScreenToSource e s \<lparr>pt_x = restricted_left, pt_y = strip_top\<rparr>,
                              ScreenToSource e s \<lparr>pt_x = r_right b - 1, pt_y = r_bottom b - 1\<rparr>) of
                          (Some top_left, Some bottom_right) \<Rightarrow>
                            s\<lparr>messenger_zone_source :=
                                 \<lparr>fr_left = fp_x top_left, fr_top = fp_y top_left,
                                  fr_right = fp_x bottom_right, fr_bottom = fp_y bottom_right\<rparr>,
                              messenger_zone_active := True,
                              messenger_anchor := pt\<rparr>
                        | _ \<Rightarrow> s)
                     else s)
               else s)
         else s)"


text \<open>
  \<open>App::ChangeZoom\<close>. \<open>UpdateTray()\<close> only rewrites the tooltip from the members and
  leaves no trace in the model.
\<close>

definition ChangeZoom :: "real \<Rightarrow> app \<Rightarrow> app" where
  "ChangeZoom delta s =
     (let new_zoom = std_clamp (f32 (zoom s + delta)) kMinZoom kMaxZoom
      in if \<bar>f32 (new_zoom - zoom s)\<bar> < f32 (1/1000) then s
         else
           s\<lparr>zoom := new_zoom,
             config_zoom := new_zoom,
             config_saves := Suc (config_saves s),
             has_center := False,
             layout_overlay :=
               (if magnifier s \<and> magnifier_active s
                then Some (lround (f32 (new_zoom * 100)), 1000)
                else layout_overlay s)\<rparr>)"

subsection \<open>The vocabulary of the claims\<close>

text \<open>A signal is fresh when its last update is no older than the timeout of its kind.\<close>

definition caret_fresh :: "env \<Rightarrow> app \<Rightarrow> bool" where
  "caret_fresh e s \<longleftrightarrow> now e - last_caret_tick s \<le> kCaretFollowTimeoutMs"

definition pointer_fresh :: "env \<Rightarrow> app \<Rightarrow> bool" where
  "pointer_fresh e s \<longleftrightarrow> now e - last_mouse_tick s \<le> kMouseFollowTimeoutMs"

definition focus_fresh :: "env \<Rightarrow> app \<Rightarrow> bool" where
  "focus_fresh e s \<longleftrightarrow> now e - last_focus_tick s \<le> kFocusFollowTimeoutMs"

text \<open>No signal that the tracking mode follows is fresh.\<close>

definition no_fresh_signal :: "env \<Rightarrow> app \<Rightarrow> bool" where
  "no_fresh_signal e s =
     (case tracking_mode s of
        Auto \<Rightarrow> \<not> caret_fresh e s \<and> \<not> pointer_fresh e s \<and> \<not> focus_fresh e s
      | Caret \<Rightarrow> \<not> caret_fresh e s
      | Mouse \<Rightarrow> \<not> pointer_fresh e s
      | Focus \<Rightarrow> \<not> focus_fresh e s
      | Manual \<Rightarrow> True)"

text \<open>The source monitor is chosen and the captured frame is not empty: the resolution runs.\<close>

definition resolution_runs :: "env \<Rightarrow> app \<Rightarrow> bool" where
  "resolution_runs e s \<longleftrightarrow> 0 \<le> source_index s \<and> desc_Width e \<noteq> 0 \<and> desc_Height e \<noteq> 0"

text \<open>No End key is held, no alignment is active, and the pause after its release is over.\<close>

definition no_end_key :: "env \<Rightarrow> app \<Rightarrow> bool" where
  "no_end_key e s \<longleftrightarrow>
     \<not> end_key_down s \<and> \<not> end_alignment_active s \<and> end_ignore_inputs_until s \<le> now e"

text \<open>Two states that offer the same signals to the choice of the target.\<close>

definition same_signals :: "app \<Rightarrow> app \<Rightarrow> bool" where
  "same_signals s' s \<longleftrightarrow>
     source_index s' = source_index s \<and> tracking_mode s' = tracking_mode s
     \<and> caret_position s' = caret_position s \<and> mouse_position s' = mouse_position s
     \<and> focus_rect s' = focus_rect s
     \<and> last_caret_tick s' = last_caret_tick s
     \<and> last_caret_target_tick s' = last_caret_target_tick s
     \<and> last_mouse_tick s' = last_mouse_tick s \<and> last_focus_tick s' = last_focus_tick s"







section \<open>The cursor glyph of the magnifier window (magnifier\_window.cpp)\<close>

text \<open>
  Of \<open>MagnifierWindow\<close> the members that \<open>DrawCursor\<close> reads: \<open>cursor_visible_\<close> (here
  \<open>glyph_visible\<close>, the view state has a field of the same name), whether \<open>cursor_srv_\<close> and
  \<open>pointer_vertex_buffer_\<close> are set, the hotspot and the size of the glyph, and the size of
  the window. The coordinates of the region are \<open>LONG\<close>; those of a frame are far from the
  limits of 32 bits and the model takes them as integers.
\<close>

record SIZE =
  sz_cx :: int
  sz_cy :: int

record MagnifierWindow =
  glyph_visible :: bool
  cursor_srv :: bool
  pointer_vertex_buffer :: bool
  cursor_hotspot :: POINT
  cursor_size :: SIZE
  window_size :: SIZE

text \<open>The locals \<open>view_width\<close> and \<open>view_height\<close> of \<open>DrawCursor\<close> (lines 651 and 652).\<close>

definition crop_width :: "ViewState \<Rightarrow> real" where
  "crop_width st = f32 (of_int (r_right (source_region st) - r_left (source_region st)))"

definition crop_height :: "ViewState \<Rightarrow> real" where
  "crop_height st = f32 (of_int (r_bottom (source_region st) - r_top (source_region st)))"

text \<open>
  Lines 666 to 675: the rectangle of the glyph in pixels of the window, as
  \<open>(left_px, top_px, right_px, bottom_px)\<close>.
\<close>

definition cursor_quad :: "MagnifierWindow \<Rightarrow> ViewState \<Rightarrow> real \<times> real \<times> real \<times> real" where
  "cursor_quad w st =
     (let cursor_left = f32 (f32 (cursor_x st - f32 (of_int (r_left (source_region st))))
                             - f32 (of_int (pt_x (cursor_hotspot w))));
          cursor_top = f32 (f32 (cursor_y st - f32 (of_int (r_top (source_region st))))
                            - f32 (of_int (pt_y (cursor_hotspot w))));
          scale_x = f32 (f32 (of_int (sz_cx (window_size w))) / crop_width st);
          scale_y = f32 (f32 (of_int (sz_cy (window_size w))) / crop_height st);
          left_px = f32 (cursor_left * scale_x);
          top_px = f32 (cursor_top * scale_y);
          right_px = f32 (left_px + f32 (f32 (of_int (sz_cx (cursor_size w))) * scale_x));
          bottom_px = f32 (top_px + f32 (f32 (of_int (sz_cy (cursor_size w))) * scale_y))
      in (left_px, top_px, right_px, bottom_px))"

text \<open>
  \<open>MagnifierWindow::DrawCursor\<close> (lines 646 to 684). The result is the rectangle handed to
  \<open>DrawTexturedQuad\<close>, which draws the glyph there under the blend state of the window;
  \<open>None\<close> is a return without drawing.
\<close>

definition DrawCursor :: "MagnifierWindow \<Rightarrow> ViewState \<Rightarrow> (real \<times> real \<times> real \<times> real) option" where
  "DrawCursor w st =
     (if \<not> glyph_visible w \<or> \<not> cursor_srv w \<or> \<not> pointer_vertex_buffer w then None
      else if crop_width st \<le> 0 \<or> crop_height st \<le> 0 then None
      else if cursor_x st < f32 (of_int (r_left (source_region st)))
              \<or> cursor_x st > f32 (of_int (r_right (source_region st)))
              \<or> cursor_y st < f32 (of_int (r_top (source_region st)))
              \<or> cursor_y st > f32 (of_int (r_bottom (source_region st)))
      then None
      else
        (let (left_px, top_px, right_px, bottom_px) = cursor_quad w st
         in if right_px < 0 \<or> bottom_px < 0
               \<or> left_px > f32 (of_int (sz_cx (window_size w)))
               \<or> top_px > f32 (of_int (sz_cy (window_size w)))
            then None
            else Some (left_px, top_px, right_px, bottom_px)))"

subsection \<open>The vocabulary of the claim on the glyph\<close>

text \<open>
  The coordinates of the region, its extent, and the sizes the window keeps are floats as
  they stand (below \<open>2^24\<close> in magnitude).
\<close>

definition region_exact :: "ViewState \<Rightarrow> bool" where
  "region_exact st \<longleftrightarrow>
     \<bar>r_left (source_region st)\<bar> < 16777216 \<and> \<bar>r_right (source_region st)\<bar> < 16777216
     \<and> \<bar>r_top (source_region st)\<bar> < 16777216 \<and> \<bar>r_bottom (source_region st)\<bar> < 16777216
     \<and> \<bar>r_right (source_region st) - r_left (source_region st)\<bar> < 16777216
     \<and> \<bar>r_bottom (source_region st) - r_top (source_region st)\<bar> < 16777216"

definition glyph_exact :: "MagnifierWindow \<Rightarrow> bool" where
  "glyph_exact w \<longleftrightarrow>
     \<bar>pt_x (cursor_hotspot w)\<bar> < 16777216 \<and> \<bar>pt_y (cursor_hotspot w)\<bar> < 16777216
     \<and> \<bar>sz_cx (window_size w)\<bar> < 16777216 \<and> \<bar>sz_cy (window_size w)\<bar> < 16777216"

text \<open>The position of the cursor lies in the crop, its edges included.\<close>

definition cursor_in_crop :: "ViewState \<Rightarrow> bool" where
  "cursor_in_crop st \<longleftrightarrow>
     of_int (r_left (source_region st)) \<le> cursor_x st
     \<and> cursor_x st \<le> of_int (r_right (source_region st))
     \<and> of_int (r_top (source_region st)) \<le> cursor_y st
     \<and> cursor_y st \<le> of_int (r_bottom (source_region st))"

text \<open>
  The words of the specification: the glyph is the rectangle of the size of the cursor whose
  hotspot sits at the position of the cursor, and it overlaps the crop when the two
  rectangles meet.
\<close>

definition glyph_overlaps_crop :: "MagnifierWindow \<Rightarrow> ViewState \<Rightarrow> bool" where
  "glyph_overlaps_crop w st \<longleftrightarrow>
     cursor_x st - of_int (pt_x (cursor_hotspot w)) \<le> of_int (r_right (source_region st))
     \<and> of_int (r_left (source_region st))
           \<le> cursor_x st - of_int (pt_x (cursor_hotspot w)) + of_int (sz_cx (cursor_size w))
     \<and> cursor_y st - of_int (pt_y (cursor_hotspot w)) \<le> of_int (r_bottom (source_region st))
     \<and> of_int (r_top (source_region st))
           \<le> cursor_y st - of_int (pt_y (cursor_hotspot w)) + of_int (sz_cy (cursor_size w))"

definition hotspot_in_glyph :: "MagnifierWindow \<Rightarrow> bool" where
  "hotspot_in_glyph w \<longleftrightarrow>
     0 \<le> pt_x (cursor_hotspot w) \<and> pt_x (cursor_hotspot w) \<le> sz_cx (cursor_size w)
     \<and> 0 \<le> pt_y (cursor_hotspot w) \<and> pt_y (cursor_hotspot w) \<le> sz_cy (cursor_size w)"

text \<open>The test of lines 677 to 681: the rectangle of the glyph misses the window.\<close>

definition quad_outside_window :: "MagnifierWindow \<Rightarrow> ViewState \<Rightarrow> bool" where
  "quad_outside_window w st \<longleftrightarrow>
     (let (left_px, top_px, right_px, bottom_px) = cursor_quad w st
      in right_px < 0 \<or> bottom_px < 0
         \<or> left_px > f32 (of_int (sz_cx (window_size w)))
         \<or> top_px > f32 (of_int (sz_cy (window_size w))))"

section \<open>Example inputs\<close>

text \<open>
  A 1920 by 1080 source monitor at the origin with scale 1, captured at its full size, and
  an application tracking it at zoom 2 with the centre in the middle of the frame, no
  signal received yet, no click, no key held. The examples below vary it.
\<close>

definition screen_1080p :: env where
  "screen_1080p =
     \<lparr>now = 0, desc_Width = 1920, desc_Height = 1080,
      monitor = \<lparr>bounds = \<lparr>r_left = 0, r_top = 0, r_right = 1920, r_bottom = 1080\<rparr>, scale = 1\<rparr>,
      foreground_putty = None, is_messenger = False\<rparr>"

definition app_idle :: app where
  "app_idle =
     \<lparr>source_index = 0,
      view_state = \<lparr>source_region = \<lparr>r_left = 480, r_top = 270, r_right = 1440, r_bottom = 810\<rparr>,
                    vs_zoom = 2, cursor_visible = False, vs_invert_colors = False,
                    cursor_x = 0, cursor_y = 0\<rparr>,
      mouse_position = \<lparr>pt_x = 0, pt_y = 0\<rparr>,
      caret_position = \<lparr>pt_x = 0, pt_y = 0\<rparr>,
      focus_rect = \<lparr>r_left = 0, r_top = 0, r_right = 0, r_bottom = 0\<rparr>,
      zoom = 2, tracking_mode = Auto,
      last_caret_tick = 0, last_caret_target_tick = 0, last_mouse_tick = 0, last_focus_tick = 0,
      current_center_x = 960, current_center_y = 540, has_center = True,
      previous_center_x = 0, previous_center_y = 0, has_previous_center = False,
      previous_center_saved_tick = 0,
      dead_zone_pixels = 16, smoothing_factor = f32 (45/100),
      invert_colors = False, last_user_activity_tick = 0,
      last_click_position = \<lparr>pt_x = 0, pt_y = 0\<rparr>, last_click_tick = 0,
      has_last_click = False, click_lock_active = False, last_click_source = None,
      messenger_zone_active = False,
      messenger_zone_source = \<lparr>fr_left = 0, fr_top = 0, fr_right = 0, fr_bottom = 0\<rparr>,
      messenger_anchor = \<lparr>pt_x = 0, pt_y = 0\<rparr>,
      end_key_down = False, end_alignment_active = False, end_press_tick = 0,
      end_ignore_inputs_until = 0, has_putty_anchor = False,
      putty_anchor_source = \<lparr>fp_x = 0, fp_y = 0\<rparr>,
      magnifier = True, magnifier_active = True,
      config_zoom = 2, config_saves = 0, layout_overlay = None\<rparr>"

text \<open>
  Caret mode: the caret was reported at the top left corner of the monitor at tick 1000,
  the centre stands at (484, 360), and the resolution runs at tick 1100.
\<close>

definition app_caret_corner :: app where
  "app_caret_corner =
     app_idle\<lparr>tracking_mode := Caret, caret_position := \<lparr>pt_x = 0, pt_y = 0\<rparr>,
              last_caret_tick := 1000, current_center_x := 484, current_center_y := 360\<rparr>"

definition at_1100 :: env where
  "at_1100 = screen_1080p\<lparr>now := 1100\<rparr>"

text \<open>
  Auto mode while typing: the caret was reported at (100, 100) at tick 1000 and last drove
  the centre at tick 1494; the pointer moved to (500, 500) at tick 1500; the focus went to
  the rectangle from (200, 200) to (400, 300) at tick 1400.
\<close>

definition app_typing :: app where
  "app_typing =
     app_idle\<lparr>caret_position := \<lparr>pt_x = 100, pt_y = 100\<rparr>, last_caret_tick := 1000,
              last_caret_target_tick := 1494,
              mouse_position := \<lparr>pt_x = 500, pt_y = 500\<rparr>, last_mouse_tick := 1500,
              focus_rect := \<lparr>r_left = 200, r_top = 200, r_right = 400, r_bottom = 300\<rparr>,
              last_focus_tick := 1400\<rparr>"

definition at_1510 :: env where
  "at_1510 = screen_1080p\<lparr>now := 1510\<rparr>"

definition at_1650 :: env where
  "at_1650 = screen_1080p\<lparr>now := 1650\<rparr>"

definition at_2000 :: env where
  "at_2000 = screen_1080p\<lparr>now := 2000\<rparr>"

definition at_5000 :: env where
  "at_5000 = screen_1080p\<lparr>now := 5000\<rparr>"








definition at_10000 :: env where
  "at_10000 = screen_1080p\<lparr>now := 10000\<rparr>"

definition at_10016 :: env where
  "at_10016 = screen_1080p\<lparr>now := 10016\<rparr>"






text \<open>
  Mouse mode with the pointer at the right edge of the monitor, (1919, 540), since tick
  9990; six wheel steps of 0.25 then take the zoom from 2 to 3.5.
\<close>

definition app_edge_start :: app where
  "app_edge_start =
     app_idle\<lparr>tracking_mode := Mouse, mouse_position := \<lparr>pt_x = 1919, pt_y = 540\<rparr>,
              last_mouse_tick := 9990\<rparr>"

definition app_edge :: app where
  "app_edge = ChangeZoom (3/2) app_edge_start"

text \<open>
  A window of 1000 by 1000 pixels with an arrow cursor of 32 by 32 whose hotspot is its
  top left corner, and a crop of 100 by 100 with the cursor inside it, one pixel left of
  it, and far left of it.
\<close>

definition arrow_window :: MagnifierWindow where
  "arrow_window =
     \<lparr>glyph_visible = True, cursor_srv = True, pointer_vertex_buffer = True,
      cursor_hotspot = \<lparr>pt_x = 0, pt_y = 0\<rparr>, cursor_size = \<lparr>sz_cx = 32, sz_cy = 32\<rparr>,
      window_size = \<lparr>sz_cx = 1000, sz_cy = 1000\<rparr>\<rparr>"

definition crop_cursor_inside :: ViewState where
  "crop_cursor_inside =
     \<lparr>source_region = \<lparr>r_left = 100, r_top = 100, r_right = 200, r_bottom = 200\<rparr>,
      vs_zoom = 2, cursor_visible = True, vs_invert_colors = False,
      cursor_x = 150, cursor_y = 150\<rparr>"

definition crop_cursor_beside :: ViewState where
  "crop_cursor_beside = crop_cursor_inside\<lparr>cursor_x := 99\<rparr>"

definition crop_cursor_away :: ViewState where
  "crop_cursor_away = crop_cursor_inside\<lparr>cursor_x := 50\<rparr>"




section \<open>Properties of the rounding\<close>

lemma expo_scan_below:
  "x < 2 powi (s - int n) \<Longrightarrow> expo_scan n s x = s - int n"
proof (induction n arbitrary: s)
  case 0
  then show ?case by simp
next
  case (Suc n)
  have "(2::real) powi (s - int (Suc n)) \<le> 2 powi s"
    by (rule power_int_increasing) auto
  with Suc.prems have "\<not> 2 powi s \<le> x" by linarith
  moreover have "x < 2 powi ((s - 1) - int n)" using Suc.prems by (simp add: algebra_simps)
  ultimately show ?case using Suc.IH [of "s - 1"] by simp
qed

lemma expo_scan_found:
  "2 powi e \<le> x \<Longrightarrow> x < 2 powi (e + 1) \<Longrightarrow> e \<le> s \<Longrightarrow> s - int n \<le> e
     \<Longrightarrow> expo_scan n s x = e"
proof (induction n arbitrary: s)
  case 0
  then show ?case by simp
next
  case (Suc n)
  show ?case
  proof (cases "s = e")
    case True
    with Suc.prems show ?thesis by simp
  next
    case False
    with Suc.prems have lt: "e + 1 \<le> s" by simp
    have "(2::real) powi (e + 1) \<le> 2 powi s"
      by (rule power_int_increasing) (use lt in auto)
    with Suc.prems have "\<not> 2 powi s \<le> x" by linarith
    moreover have "expo_scan n (s - 1) x = e"
      using Suc.prems lt by (intro Suc.IH) auto
    ultimately show ?thesis by simp
  qed
qed

lemma fl_expo_eq:
  assumes "2 powi e \<le> \<bar>x\<bar>" "\<bar>x\<bar> < 2 powi (e + 1)" "emin \<le> e" "e \<le> emax"
  shows "fl_expo emin emax x = e"
  unfolding fl_expo_def using assms by (intro expo_scan_found) auto

lemma fl_round_normal:
  assumes "2 powi e \<le> \<bar>x\<bar>" "\<bar>x\<bar> < 2 powi (e + 1)" "emin \<le> e" "e \<le> emax"
  shows "fl_round p emin emax x =
           of_int (round_half_even (x / 2 powi (e - int p + 1))) * 2 powi (e - int p + 1)"
  using fl_expo_eq [OF assms] by (simp add: fl_round_def Let_def)

lemma f32_normal:
  assumes "2 powi e \<le> \<bar>x\<bar>" "\<bar>x\<bar> < 2 powi (e + 1)" "-126 \<le> e" "e \<le> 127"
  shows "f32 x = of_int (round_half_even (x / 2 powi (e - 23))) * 2 powi (e - 23)"
  using fl_round_normal [OF assms(1,2), of "-126" 127 24] assms(3,4)
  by (simp add: f32_def)



lemma round_half_even_of_int [simp]: "round_half_even (of_int n) = n"
  by (simp add: round_half_even_def)

lemma round_half_even_bounds: "\<lfloor>y\<rfloor> \<le> round_half_even y \<and> round_half_even y \<le> \<lfloor>y\<rfloor> + 1"
  by (simp add: round_half_even_def Let_def)

lemma round_half_even_mono:
  assumes "a \<le> b"
  shows "round_half_even a \<le> round_half_even b"
proof (cases "\<lfloor>a\<rfloor> = \<lfloor>b\<rfloor>")
  case True
  with assms have "a - of_int \<lfloor>a\<rfloor> \<le> b - of_int \<lfloor>b\<rfloor>" by simp
  with True show ?thesis by (auto simp: round_half_even_def Let_def)
next
  case False
  with assms have "\<lfloor>a\<rfloor> + 1 \<le> \<lfloor>b\<rfloor>"
    using floor_mono [OF assms] by linarith
  with round_half_even_bounds [of a] round_half_even_bounds [of b] show ?thesis by linarith
qed

lemma round_half_even_ge: "of_int n \<le> y \<Longrightarrow> n \<le> round_half_even y"
  using round_half_even_mono [of "of_int n" y] by simp

lemma round_half_even_le: "y \<le> of_int n \<Longrightarrow> round_half_even y \<le> n"
  using round_half_even_mono [of y "of_int n"] by simp

lemma round_half_even_minus: "round_half_even (- y) = - round_half_even y"
proof (cases "y \<in> \<int>")
  case True
  then obtain n where "y = of_int n" by (auto elim: Ints_cases)
  then have "- y = of_int (- n)" by simp
  then show ?thesis using \<open>y = of_int n\<close> by (simp only: round_half_even_of_int)
next
  case False
  then have "y \<noteq> of_int \<lfloor>y\<rfloor>" by (metis Ints_of_int)
  then have fl: "\<lfloor>- y\<rfloor> = - \<lfloor>y\<rfloor> - 1"
    by (simp add: floor_minus ceiling_altdef)
  have d: "- y - of_int \<lfloor>- y\<rfloor> = 1 - (y - of_int \<lfloor>y\<rfloor>)"
    by (simp add: fl)
  show ?thesis
    unfolding round_half_even_def Let_def d
    by (auto simp: fl)
qed

text \<open>The exponent the rounding works with.\<close>

lemma expo_scan_props:
  "s - int n \<le> expo_scan n s x \<and> expo_scan n s x \<le> s
   \<and> (expo_scan n s x = s - int n \<or> 2 powi (expo_scan n s x) \<le> x)
   \<and> (expo_scan n s x = s \<or> x < 2 powi (expo_scan n s x + 1))"
proof (induction n arbitrary: s)
  case 0
  then show ?case by simp
next
  case (Suc n)
  show ?case
  proof (cases "2 powi s \<le> x")
    case True
    then show ?thesis by simp
  next
    case False
    then have eq: "expo_scan (Suc n) s x = expo_scan n (s - 1) x" by simp
    from Suc.IH [of "s - 1"] False show ?thesis
      unfolding eq by (auto simp: algebra_simps)
  qed
qed

lemma fl_expo_props:
  assumes "emin \<le> emax"
  shows "emin \<le> fl_expo emin emax x" "fl_expo emin emax x \<le> emax"
    "fl_expo emin emax x = emin \<or> 2 powi (fl_expo emin emax x) \<le> \<bar>x\<bar>"
    "fl_expo emin emax x = emax \<or> \<bar>x\<bar> < 2 powi (fl_expo emin emax x + 1)"
  using expo_scan_props [of emax "nat (emax - emin)" "\<bar>x\<bar>"] assms
  by (auto simp: fl_expo_def)

lemma fl_expo_mono:
  assumes "emin \<le> emax" "\<bar>x\<bar> \<le> \<bar>y\<bar>"
  shows "fl_expo emin emax x \<le> fl_expo emin emax y"
proof (rule ccontr)
  assume "\<not> ?thesis"
  then have lt: "fl_expo emin emax y + 1 \<le> fl_expo emin emax x" by simp
  with fl_expo_props [OF assms(1), of x] fl_expo_props [OF assms(1), of y]
  have a: "2 powi (fl_expo emin emax x) \<le> \<bar>x\<bar>" and b: "\<bar>y\<bar> < 2 powi (fl_expo emin emax y + 1)"
    by auto
  have "(2::real) powi (fl_expo emin emax y + 1) \<le> 2 powi (fl_expo emin emax x)"
    by (rule power_int_increasing) (use lt in auto)
  with a b assms(2) show False by linarith
qed

lemma fl_round_alt:
  "fl_round p emin emax x =
     of_int (round_half_even (x / 2 powi (fl_expo emin emax x - int p + 1)))
       * 2 powi (fl_expo emin emax x - int p + 1)"
  by (simp add: fl_round_def Let_def)

lemma fl_round_zero [simp]: "fl_round p emin emax 0 = 0"
  using round_half_even_of_int [of 0] by (simp add: fl_round_alt del: round_half_even_of_int)

lemma fl_round_minus: "fl_round p emin emax (- x) = - fl_round p emin emax x"
  by (simp add: fl_round_alt fl_expo_def round_half_even_minus)

lemma fl_round_mono_nonneg:
  assumes e: "emin \<le> emax" and p: "1 \<le> p" and "0 \<le> x" "x \<le> y"
  shows "fl_round p emin emax x \<le> fl_round p emin emax y"
proof -
  let ?ex = "fl_expo emin emax x" and ?ey = "fl_expo emin emax y"
  let ?qx = "(2::real) powi (?ex - int p + 1)" and ?qy = "(2::real) powi (?ey - int p + 1)"
  have le: "?ex \<le> ?ey" using assms by (intro fl_expo_mono) auto
  have qx: "0 < ?qx" and qy: "0 < ?qy" by simp_all
  show ?thesis
  proof (cases "?ex = ?ey")
    case True
    have "x / ?qx \<le> y / ?qx" using assms qx by (simp add: divide_right_mono)
    then have "round_half_even (x / ?qx) \<le> round_half_even (y / ?qx)"
      by (rule round_half_even_mono)
    then have "of_int (round_half_even (x / ?qx)) * ?qx \<le> of_int (round_half_even (y / ?qx)) * ?qx"
      using qx by (simp add: mult_right_mono)
    then show ?thesis unfolding fl_round_alt True [symmetric] .
  next
    case False
    with le have lt: "?ex + 1 \<le> ?ey" by simp
    from fl_expo_props [OF e, of x] fl_expo_props(2) [OF e, of y] lt
    have xb: "\<bar>x\<bar> < 2 powi (?ex + 1)" by auto
    from fl_expo_props [OF e, of y] fl_expo_props(1) [OF e, of x] lt
    have yb: "2 powi ?ey \<le> \<bar>y\<bar>" by auto
    have px: "(2::real) powi (?ex + 1) = of_int (2 ^ p) * ?qx"
      by (simp add: power_int_add power_int_diff)
    have py: "(2::real) powi ?ey = of_int (2 ^ (p - 1)) * ?qy"
    proof -
      from p obtain p' where p': "p = Suc p'" by (cases p) auto
      have "?ey - int p + 1 = ?ey - int p'" by (simp add: p')
      then show ?thesis by (simp add: p' power_int_diff)
    qed
    have "x / ?qx \<le> of_int (2 ^ p)"
      using xb assms(3) px qx by (simp add: field_simps)
    then have "round_half_even (x / ?qx) \<le> 2 ^ p" by (rule round_half_even_le)
    then have "of_int (round_half_even (x / ?qx)) * ?qx \<le> of_int (2 ^ p) * ?qx"
      using qx by (intro mult_right_mono) (auto simp: of_int_le_iff [symmetric] simp del: of_int_le_iff)
    then have up: "fl_round p emin emax x \<le> 2 powi (?ex + 1)"
      unfolding fl_round_alt px .
    have "of_int (2 ^ (p - 1)) \<le> y / ?qy"
      using yb assms(3,4) py qy by (simp add: field_simps)
    then have "2 ^ (p - 1) \<le> round_half_even (y / ?qy)" by (rule round_half_even_ge)
    then have "of_int (2 ^ (p - 1)) * ?qy \<le> of_int (round_half_even (y / ?qy)) * ?qy"
      using qy by (intro mult_right_mono) (auto simp: of_int_le_iff [symmetric] simp del: of_int_le_iff)
    then have lo: "2 powi ?ey \<le> fl_round p emin emax y"
      unfolding fl_round_alt py .
    have "(2::real) powi (?ex + 1) \<le> 2 powi ?ey"
      by (rule power_int_increasing) (use lt in auto)
    with up lo show ?thesis by linarith
  qed
qed

lemma fl_round_nonneg:
  assumes "emin \<le> emax" "1 \<le> p" "0 \<le> x"
  shows "0 \<le> fl_round p emin emax x"
  using fl_round_mono_nonneg [OF assms(1,2), of 0 x] assms(3) by simp

lemma fl_round_mono:
  assumes e: "emin \<le> emax" and p: "1 \<le> p" and "x \<le> y"
  shows "fl_round p emin emax x \<le> fl_round p emin emax y"
proof -
  consider "0 \<le> x" | "y \<le> 0" | "x < 0" "0 < y" by linarith
  then show ?thesis
  proof cases
    case 1
    then show ?thesis using assms by (intro fl_round_mono_nonneg) auto
  next
    case 2
    then have "fl_round p emin emax (- y) \<le> fl_round p emin emax (- x)"
      using assms by (intro fl_round_mono_nonneg) auto
    then show ?thesis by (simp add: fl_round_minus)
  next
    case 3
    have "0 \<le> fl_round p emin emax (- x)" using 3 e p by (intro fl_round_nonneg) auto
    moreover have "0 \<le> fl_round p emin emax y" using 3 e p by (intro fl_round_nonneg) auto
    ultimately show ?thesis by (simp add: fl_round_minus)
  qed
qed


lemma f64_mono: "x \<le> y \<Longrightarrow> f64 x \<le> f64 y"
  unfolding f64_def by (rule fl_round_mono) auto

text \<open>A value with at most \<open>p\<close> significant bits and a quantum in range is not changed.\<close>

lemma fl_round_fixed:
  assumes e: "emin \<le> emax" and x: "x = of_int m * 2 powi k"
    and m: "\<bar>m\<bar> < 2 ^ p" and k: "emin - int p + 1 \<le> k"
  shows "fl_round p emin emax x = x"
proof -
  let ?E = "fl_expo emin emax x"
  let ?j = "k - (?E - int p + 1)"
  have "0 \<le> ?j"
  proof (cases "?E = emin")
    case True
    with k show ?thesis by simp
  next
    case False
    with fl_expo_props(3) [OF e, of x] have "2 powi ?E \<le> \<bar>x\<bar>" by auto
    also have "\<bar>x\<bar> = of_int \<bar>m\<bar> * 2 powi k" by (simp add: x abs_mult)
    also have "\<dots> < of_int (2 ^ p) * 2 powi k"
    proof -
      have "(of_int \<bar>m\<bar> :: real) < of_int (2 ^ p)" using m by (simp only: of_int_less_iff)
      then show ?thesis by (intro mult_strict_right_mono) auto
    qed
    also have "\<dots> = 2 powi (int p + k)" by (simp add: power_int_add)
    finally have "(2::real) powi ?E < 2 powi (int p + k)" .
    moreover have "(2::real) powi (int p + k) \<le> 2 powi ?E" if "int p + k \<le> ?E"
      using that by (intro power_int_increasing) auto
    ultimately have "?E < int p + k" by fastforce
    then show ?thesis by simp
  qed
  then obtain j where j: "?j = int j" by (metis nonneg_int_cases)
  define q :: real where "q = 2 powi (?E - int p + 1)"
  have q: "0 < q" by (simp add: q_def)
  have "k = (?E - int p + 1) + int j" using j by simp
  then have "(2::real) powi k = q * 2 ^ j"
    unfolding q_def by (metis power_int_add power_int_of_nat zero_neq_numeral)
  with x have "x = of_int (m * 2 ^ j) * q" by simp
  with q have xq: "x / q = of_int (m * 2 ^ j)" by simp
  then have "round_half_even (x / q) = m * 2 ^ j"
    by (simp only: round_half_even_of_int)
  then have "fl_round p emin emax x = of_int (m * 2 ^ j) * q"
    unfolding q_def by (simp only: fl_round_alt)
  also have "\<dots> = x" using xq q by (simp add: field_simps)
  finally show ?thesis .
qed

lemma f32_of_int: "\<bar>n\<bar> < 16777216 \<Longrightarrow> f32 (of_int n) = of_int n"
  unfolding f32_def by (rule fl_round_fixed [where m = n and k = 0]) auto

lemma f64_of_int: "\<bar>n\<bar> < 9007199254740992 \<Longrightarrow> f64 (of_int n) = of_int n"
  unfolding f64_def by (rule fl_round_fixed [where m = n and k = 0]) auto

lemma f32_numeral: "(numeral w :: int) < 16777216 \<Longrightarrow> f32 (numeral w) = numeral w"
  using f32_of_int [of "numeral w"] by simp

lemma f64_numeral: "(numeral w :: int) < 9007199254740992 \<Longrightarrow> f64 (numeral w) = numeral w"
  using f64_of_int [of "numeral w"] by simp

lemma f32_0 [simp]: "f32 0 = 0"
  using f32_of_int [of 0] by simp

lemma f32_1 [simp]: "f32 1 = 1"
  using f32_of_int [of 1] by simp

lemma f64_0 [simp]: "f64 0 = 0"
  using f64_of_int [of 0] by simp

lemma f64_1 [simp]: "f64 1 = 1"
  using f64_of_int [of 1] by simp

lemma f32_minus: "f32 (- x) = - f32 x"
  by (simp add: f32_def fl_round_minus)


lemma f64_minus: "f64 (- x) = - f64 x"
  by (simp add: f64_def fl_round_minus)


lemmas float_literals = f32_numeral f64_numeral f32_minus f64_minus







lemma f32_thousandth: "f32 (1/1000) = 8589935 / 8589934592"
  using f32_normal [of "-10" "1/1000"]
  by (simp add: round_half_even_def Let_def power_int_minus)


lemma std_clamp_id: "lo \<le> v \<Longrightarrow> v \<le> hi \<Longrightarrow> std_clamp v lo hi = v"
  by (auto simp: std_clamp_def)

section \<open>The example inputs, field by field\<close>

lemma app_idle_fields [simp]:
  "source_index app_idle = 0"
  "view_state app_idle = \<lparr>source_region = \<lparr>r_left = 480, r_top = 270, r_right = 1440, r_bottom = 810\<rparr>, vs_zoom = 2, cursor_visible = False, vs_invert_colors = False, cursor_x = 0, cursor_y = 0\<rparr>"
  "mouse_position app_idle = \<lparr>pt_x = 0, pt_y = 0\<rparr>"
  "caret_position app_idle = \<lparr>pt_x = 0, pt_y = 0\<rparr>"
  "focus_rect app_idle = \<lparr>r_left = 0, r_top = 0, r_right = 0, r_bottom = 0\<rparr>"
  "zoom app_idle = 2"
  "tracking_mode app_idle = Auto"
  "last_caret_tick app_idle = 0"
  "last_caret_target_tick app_idle = 0"
  "last_mouse_tick app_idle = 0"
  "last_focus_tick app_idle = 0"
  "current_center_x app_idle = 960"
  "current_center_y app_idle = 540"
  "has_center app_idle = True"
  "previous_center_x app_idle = 0"
  "previous_center_y app_idle = 0"
  "has_previous_center app_idle = False"
  "previous_center_saved_tick app_idle = 0"
  "dead_zone_pixels app_idle = 16"
  "smoothing_factor app_idle = f32 (45/100)"
  "invert_colors app_idle = False"
  "last_user_activity_tick app_idle = 0"
  "last_click_position app_idle = \<lparr>pt_x = 0, pt_y = 0\<rparr>"
  "last_click_tick app_idle = 0"
  "has_last_click app_idle = False"
  "click_lock_active app_idle = False"
  "last_click_source app_idle = None"
  "messenger_zone_active app_idle = False"
  "messenger_zone_source app_idle = \<lparr>fr_left = 0, fr_top = 0, fr_right = 0, fr_bottom = 0\<rparr>"
  "messenger_anchor app_idle = \<lparr>pt_x = 0, pt_y = 0\<rparr>"
  "end_key_down app_idle = False"
  "end_alignment_active app_idle = False"
  "end_press_tick app_idle = 0"
  "end_ignore_inputs_until app_idle = 0"
  "has_putty_anchor app_idle = False"
  "putty_anchor_source app_idle = \<lparr>fp_x = 0, fp_y = 0\<rparr>"
  "magnifier app_idle = True"
  "magnifier_active app_idle = True"
  "config_zoom app_idle = 2"
  "config_saves app_idle = 0"
  "layout_overlay app_idle = None"
  by (simp_all add: app_idle_def)

lemma screen_1080p_fields [simp]:
  "now screen_1080p = 0"
  "desc_Width screen_1080p = 1920"
  "desc_Height screen_1080p = 1080"
  "monitor screen_1080p = \<lparr>bounds = \<lparr>r_left = 0, r_top = 0, r_right = 1920, r_bottom = 1080\<rparr>, scale = 1\<rparr>"
  "foreground_putty screen_1080p = None"
  "is_messenger screen_1080p = False"
  by (simp_all add: screen_1080p_def)

lemma at_fields [simp]:
  "desc_Width at_1100 = 1920" "desc_Height at_1100 = 1080" "now at_1100 = 1100"
  "monitor at_1100 = monitor screen_1080p"
  "desc_Width at_1510 = 1920" "desc_Height at_1510 = 1080" "now at_1510 = 1510"
  "monitor at_1510 = monitor screen_1080p"
  "desc_Width at_1650 = 1920" "desc_Height at_1650 = 1080" "now at_1650 = 1650"
  "monitor at_1650 = monitor screen_1080p"
  "desc_Width at_2000 = 1920" "desc_Height at_2000 = 1080" "now at_2000 = 2000"
  "monitor at_2000 = monitor screen_1080p"
  "desc_Width at_5000 = 1920" "desc_Height at_5000 = 1080" "now at_5000 = 5000"
  "monitor at_5000 = monitor screen_1080p"
  "desc_Width at_10000 = 1920" "desc_Height at_10000 = 1080" "now at_10000 = 10000"
  "monitor at_10000 = monitor screen_1080p" "is_messenger at_10000 = False"
  "desc_Width at_10016 = 1920" "desc_Height at_10016 = 1080" "now at_10016 = 10016"
  "monitor at_10016 = monitor screen_1080p"
  by (simp_all add: at_1100_def at_1510_def at_1650_def at_2000_def at_5000_def
        at_10000_def at_10016_def)

lemma ScreenToSource_1080p:
  assumes "source_index s = 0" "monitor e = monitor screen_1080p"
    "0 \<le> a" "a < 1920" "0 \<le> b" "b < 1080"
  shows "ScreenToSource e s \<lparr>pt_x = a, pt_y = b\<rparr> = Some \<lparr>fp_x = of_int a, fp_y = of_int b\<rparr>"
proof -
  have "f64 (of_int a) = of_int a" "f64 (of_int b) = of_int b"
    using assms by (simp_all add: f64_of_int)
  moreover have "f32 (of_int a) = of_int a" "f32 (of_int b) = of_int b"
    using assms by (simp_all add: f32_of_int)
  ultimately show ?thesis
    using assms by (simp add: ScreenToSource_def PointInRect_def)
qed

lemmas example_defs = app_typing_def at_1510_def at_1650_def at_2000_def at_5000_def
  app_caret_corner_def at_1100_def

lemmas fresh_defs = caret_fresh_def pointer_fresh_def focus_fresh_def
  kCaretFollowTimeoutMs_def kMouseFollowTimeoutMs_def kFocusFollowTimeoutMs_def

section \<open>What each block of a resolution leaves alone\<close>

lemma reset_overlay_fields [simp]:
  "source_index (reset_overlay s) = source_index s"
  "mouse_position (reset_overlay s) = mouse_position s"
  "caret_position (reset_overlay s) = caret_position s"
  "focus_rect (reset_overlay s) = focus_rect s"
  "zoom (reset_overlay s) = zoom s"
  "tracking_mode (reset_overlay s) = tracking_mode s"
  "last_caret_tick (reset_overlay s) = last_caret_tick s"
  "last_caret_target_tick (reset_overlay s) = last_caret_target_tick s"
  "last_mouse_tick (reset_overlay s) = last_mouse_tick s"
  "last_focus_tick (reset_overlay s) = last_focus_tick s"
  "current_center_x (reset_overlay s) = current_center_x s"
  "current_center_y (reset_overlay s) = current_center_y s"
  "has_center (reset_overlay s) = has_center s"
  "previous_center_x (reset_overlay s) = previous_center_x s"
  "previous_center_y (reset_overlay s) = previous_center_y s"
  "has_previous_center (reset_overlay s) = has_previous_center s"
  "previous_center_saved_tick (reset_overlay s) = previous_center_saved_tick s"
  "dead_zone_pixels (reset_overlay s) = dead_zone_pixels s"
  "smoothing_factor (reset_overlay s) = smoothing_factor s"
  "invert_colors (reset_overlay s) = invert_colors s"
  "last_user_activity_tick (reset_overlay s) = last_user_activity_tick s"
  "last_click_position (reset_overlay s) = last_click_position s"
  "last_click_tick (reset_overlay s) = last_click_tick s"
  "has_last_click (reset_overlay s) = has_last_click s"
  "click_lock_active (reset_overlay s) = click_lock_active s"
  "last_click_source (reset_overlay s) = last_click_source s"
  "messenger_zone_active (reset_overlay s) = messenger_zone_active s"
  "messenger_zone_source (reset_overlay s) = messenger_zone_source s"
  "messenger_anchor (reset_overlay s) = messenger_anchor s"
  "end_key_down (reset_overlay s) = end_key_down s"
  "end_alignment_active (reset_overlay s) = end_alignment_active s"
  "end_press_tick (reset_overlay s) = end_press_tick s"
  "end_ignore_inputs_until (reset_overlay s) = end_ignore_inputs_until s"
  "has_putty_anchor (reset_overlay s) = has_putty_anchor s"
  "putty_anchor_source (reset_overlay s) = putty_anchor_source s"
  "magnifier (reset_overlay s) = magnifier s"
  "magnifier_active (reset_overlay s) = magnifier_active s"
  "config_zoom (reset_overlay s) = config_zoom s"
  "config_saves (reset_overlay s) = config_saves s"
  "layout_overlay (reset_overlay s) = layout_overlay s"
  by (simp_all add: reset_overlay_def)

lemma expire_putty_anchor_fields [simp]:
  "source_index (expire_putty_anchor e s) = source_index s"
  "view_state (expire_putty_anchor e s) = view_state s"
  "mouse_position (expire_putty_anchor e s) = mouse_position s"
  "caret_position (expire_putty_anchor e s) = caret_position s"
  "focus_rect (expire_putty_anchor e s) = focus_rect s"
  "zoom (expire_putty_anchor e s) = zoom s"
  "tracking_mode (expire_putty_anchor e s) = tracking_mode s"
  "last_caret_tick (expire_putty_anchor e s) = last_caret_tick s"
  "last_caret_target_tick (expire_putty_anchor e s) = last_caret_target_tick s"
  "last_mouse_tick (expire_putty_anchor e s) = last_mouse_tick s"
  "last_focus_tick (expire_putty_anchor e s) = last_focus_tick s"
  "current_center_x (expire_putty_anchor e s) = current_center_x s"
  "current_center_y (expire_putty_anchor e s) = current_center_y s"
  "has_center (expire_putty_anchor e s) = has_center s"
  "previous_center_x (expire_putty_anchor e s) = previous_center_x s"
  "previous_center_y (expire_putty_anchor e s) = previous_center_y s"
  "has_previous_center (expire_putty_anchor e s) = has_previous_center s"
  "previous_center_saved_tick (expire_putty_anchor e s) = previous_center_saved_tick s"
  "dead_zone_pixels (expire_putty_anchor e s) = dead_zone_pixels s"
  "smoothing_factor (expire_putty_anchor e s) = smoothing_factor s"
  "invert_colors (expire_putty_anchor e s) = invert_colors s"
  "last_user_activity_tick (expire_putty_anchor e s) = last_user_activity_tick s"
  "last_click_position (expire_putty_anchor e s) = last_click_position s"
  "last_click_tick (expire_putty_anchor e s) = last_click_tick s"
  "has_last_click (expire_putty_anchor e s) = has_last_click s"
  "click_lock_active (expire_putty_anchor e s) = click_lock_active s"
  "last_click_source (expire_putty_anchor e s) = last_click_source s"
  "messenger_zone_active (expire_putty_anchor e s) = messenger_zone_active s"
  "messenger_zone_source (expire_putty_anchor e s) = messenger_zone_source s"
  "messenger_anchor (expire_putty_anchor e s) = messenger_anchor s"
  "end_key_down (expire_putty_anchor e s) = end_key_down s"
  "end_alignment_active (expire_putty_anchor e s) = end_alignment_active s"
  "end_press_tick (expire_putty_anchor e s) = end_press_tick s"
  "end_ignore_inputs_until (expire_putty_anchor e s) = end_ignore_inputs_until s"
  "putty_anchor_source (expire_putty_anchor e s) = putty_anchor_source s"
  "magnifier (expire_putty_anchor e s) = magnifier s"
  "magnifier_active (expire_putty_anchor e s) = magnifier_active s"
  "config_zoom (expire_putty_anchor e s) = config_zoom s"
  "config_saves (expire_putty_anchor e s) = config_saves s"
  "layout_overlay (expire_putty_anchor e s) = layout_overlay s"
  by (simp_all add: expire_putty_anchor_def)

lemma place_cursor_fields [simp]:
  "source_index (place_cursor e s) = source_index s"
  "mouse_position (place_cursor e s) = mouse_position s"
  "caret_position (place_cursor e s) = caret_position s"
  "focus_rect (place_cursor e s) = focus_rect s"
  "zoom (place_cursor e s) = zoom s"
  "tracking_mode (place_cursor e s) = tracking_mode s"
  "last_caret_tick (place_cursor e s) = last_caret_tick s"
  "last_caret_target_tick (place_cursor e s) = last_caret_target_tick s"
  "last_mouse_tick (place_cursor e s) = last_mouse_tick s"
  "last_focus_tick (place_cursor e s) = last_focus_tick s"
  "current_center_x (place_cursor e s) = current_center_x s"
  "current_center_y (place_cursor e s) = current_center_y s"
  "has_center (place_cursor e s) = has_center s"
  "previous_center_x (place_cursor e s) = previous_center_x s"
  "previous_center_y (place_cursor e s) = previous_center_y s"
  "has_previous_center (place_cursor e s) = has_previous_center s"
  "previous_center_saved_tick (place_cursor e s) = previous_center_saved_tick s"
  "dead_zone_pixels (place_cursor e s) = dead_zone_pixels s"
  "smoothing_factor (place_cursor e s) = smoothing_factor s"
  "invert_colors (place_cursor e s) = invert_colors s"
  "last_user_activity_tick (place_cursor e s) = last_user_activity_tick s"
  "last_click_position (place_cursor e s) = last_click_position s"
  "last_click_tick (place_cursor e s) = last_click_tick s"
  "has_last_click (place_cursor e s) = has_last_click s"
  "click_lock_active (place_cursor e s) = click_lock_active s"
  "last_click_source (place_cursor e s) = last_click_source s"
  "messenger_zone_active (place_cursor e s) = messenger_zone_active s"
  "messenger_zone_source (place_cursor e s) = messenger_zone_source s"
  "messenger_anchor (place_cursor e s) = messenger_anchor s"
  "end_key_down (place_cursor e s) = end_key_down s"
  "end_alignment_active (place_cursor e s) = end_alignment_active s"
  "end_press_tick (place_cursor e s) = end_press_tick s"
  "end_ignore_inputs_until (place_cursor e s) = end_ignore_inputs_until s"
  "has_putty_anchor (place_cursor e s) = has_putty_anchor s"
  "putty_anchor_source (place_cursor e s) = putty_anchor_source s"
  "magnifier (place_cursor e s) = magnifier s"
  "magnifier_active (place_cursor e s) = magnifier_active s"
  "config_zoom (place_cursor e s) = config_zoom s"
  "config_saves (place_cursor e s) = config_saves s"
  "layout_overlay (place_cursor e s) = layout_overlay s"
  by (simp_all add: place_cursor_def split: option.splits)

lemma record_previous_center_fields [simp]:
  "source_index (record_previous_center e d s) = source_index s"
  "view_state (record_previous_center e d s) = view_state s"
  "mouse_position (record_previous_center e d s) = mouse_position s"
  "caret_position (record_previous_center e d s) = caret_position s"
  "focus_rect (record_previous_center e d s) = focus_rect s"
  "zoom (record_previous_center e d s) = zoom s"
  "tracking_mode (record_previous_center e d s) = tracking_mode s"
  "last_caret_tick (record_previous_center e d s) = last_caret_tick s"
  "last_caret_target_tick (record_previous_center e d s) = last_caret_target_tick s"
  "last_mouse_tick (record_previous_center e d s) = last_mouse_tick s"
  "last_focus_tick (record_previous_center e d s) = last_focus_tick s"
  "current_center_x (record_previous_center e d s) = current_center_x s"
  "current_center_y (record_previous_center e d s) = current_center_y s"
  "has_center (record_previous_center e d s) = has_center s"
  "dead_zone_pixels (record_previous_center e d s) = dead_zone_pixels s"
  "smoothing_factor (record_previous_center e d s) = smoothing_factor s"
  "invert_colors (record_previous_center e d s) = invert_colors s"
  "last_user_activity_tick (record_previous_center e d s) = last_user_activity_tick s"
  "last_click_position (record_previous_center e d s) = last_click_position s"
  "last_click_tick (record_previous_center e d s) = last_click_tick s"
  "has_last_click (record_previous_center e d s) = has_last_click s"
  "click_lock_active (record_previous_center e d s) = click_lock_active s"
  "last_click_source (record_previous_center e d s) = last_click_source s"
  "messenger_zone_active (record_previous_center e d s) = messenger_zone_active s"
  "messenger_zone_source (record_previous_center e d s) = messenger_zone_source s"
  "messenger_anchor (record_previous_center e d s) = messenger_anchor s"
  "end_key_down (record_previous_center e d s) = end_key_down s"
  "end_alignment_active (record_previous_center e d s) = end_alignment_active s"
  "end_press_tick (record_previous_center e d s) = end_press_tick s"
  "end_ignore_inputs_until (record_previous_center e d s) = end_ignore_inputs_until s"
  "has_putty_anchor (record_previous_center e d s) = has_putty_anchor s"
  "putty_anchor_source (record_previous_center e d s) = putty_anchor_source s"
  "magnifier (record_previous_center e d s) = magnifier s"
  "magnifier_active (record_previous_center e d s) = magnifier_active s"
  "config_zoom (record_previous_center e d s) = config_zoom s"
  "config_saves (record_previous_center e d s) = config_saves s"
  "layout_overlay (record_previous_center e d s) = layout_overlay s"
  by (simp_all add: record_previous_center_def)

lemma write_source_region_fields [simp]:
  "source_index (write_source_region e s) = source_index s"
  "mouse_position (write_source_region e s) = mouse_position s"
  "caret_position (write_source_region e s) = caret_position s"
  "focus_rect (write_source_region e s) = focus_rect s"
  "zoom (write_source_region e s) = zoom s"
  "tracking_mode (write_source_region e s) = tracking_mode s"
  "last_caret_tick (write_source_region e s) = last_caret_tick s"
  "last_caret_target_tick (write_source_region e s) = last_caret_target_tick s"
  "last_mouse_tick (write_source_region e s) = last_mouse_tick s"
  "last_focus_tick (write_source_region e s) = last_focus_tick s"
  "current_center_x (write_source_region e s) = current_center_x s"
  "current_center_y (write_source_region e s) = current_center_y s"
  "has_center (write_source_region e s) = has_center s"
  "previous_center_x (write_source_region e s) = previous_center_x s"
  "previous_center_y (write_source_region e s) = previous_center_y s"
  "has_previous_center (write_source_region e s) = has_previous_center s"
  "previous_center_saved_tick (write_source_region e s) = previous_center_saved_tick s"
  "dead_zone_pixels (write_source_region e s) = dead_zone_pixels s"
  "smoothing_factor (write_source_region e s) = smoothing_factor s"
  "invert_colors (write_source_region e s) = invert_colors s"
  "last_user_activity_tick (write_source_region e s) = last_user_activity_tick s"
  "last_click_position (write_source_region e s) = last_click_position s"
  "last_click_tick (write_source_region e s) = last_click_tick s"
  "has_last_click (write_source_region e s) = has_last_click s"
  "click_lock_active (write_source_region e s) = click_lock_active s"
  "last_click_source (write_source_region e s) = last_click_source s"
  "messenger_zone_active (write_source_region e s) = messenger_zone_active s"
  "messenger_zone_source (write_source_region e s) = messenger_zone_source s"
  "messenger_anchor (write_source_region e s) = messenger_anchor s"
  "end_key_down (write_source_region e s) = end_key_down s"
  "end_alignment_active (write_source_region e s) = end_alignment_active s"
  "end_press_tick (write_source_region e s) = end_press_tick s"
  "end_ignore_inputs_until (write_source_region e s) = end_ignore_inputs_until s"
  "has_putty_anchor (write_source_region e s) = has_putty_anchor s"
  "putty_anchor_source (write_source_region e s) = putty_anchor_source s"
  "magnifier (write_source_region e s) = magnifier s"
  "magnifier_active (write_source_region e s) = magnifier_active s"
  "config_zoom (write_source_region e s) = config_zoom s"
  "config_saves (write_source_region e s) = config_saves s"
  "layout_overlay (write_source_region e s) = layout_overlay s"
  by (simp_all add: write_source_region_def Let_def)

lemma frame_clamp_fields [simp]:
  "source_index (frame_clamp e s) = source_index s"
  "view_state (frame_clamp e s) = view_state s"
  "mouse_position (frame_clamp e s) = mouse_position s"
  "caret_position (frame_clamp e s) = caret_position s"
  "focus_rect (frame_clamp e s) = focus_rect s"
  "zoom (frame_clamp e s) = zoom s"
  "tracking_mode (frame_clamp e s) = tracking_mode s"
  "last_caret_tick (frame_clamp e s) = last_caret_tick s"
  "last_caret_target_tick (frame_clamp e s) = last_caret_target_tick s"
  "last_mouse_tick (frame_clamp e s) = last_mouse_tick s"
  "last_focus_tick (frame_clamp e s) = last_focus_tick s"
  "has_center (frame_clamp e s) = has_center s"
  "previous_center_x (frame_clamp e s) = previous_center_x s"
  "previous_center_y (frame_clamp e s) = previous_center_y s"
  "has_previous_center (frame_clamp e s) = has_previous_center s"
  "previous_center_saved_tick (frame_clamp e s) = previous_center_saved_tick s"
  "dead_zone_pixels (frame_clamp e s) = dead_zone_pixels s"
  "smoothing_factor (frame_clamp e s) = smoothing_factor s"
  "invert_colors (frame_clamp e s) = invert_colors s"
  "last_user_activity_tick (frame_clamp e s) = last_user_activity_tick s"
  "last_click_position (frame_clamp e s) = last_click_position s"
  "last_click_tick (frame_clamp e s) = last_click_tick s"
  "has_last_click (frame_clamp e s) = has_last_click s"
  "click_lock_active (frame_clamp e s) = click_lock_active s"
  "last_click_source (frame_clamp e s) = last_click_source s"
  "messenger_zone_active (frame_clamp e s) = messenger_zone_active s"
  "messenger_zone_source (frame_clamp e s) = messenger_zone_source s"
  "messenger_anchor (frame_clamp e s) = messenger_anchor s"
  "end_key_down (frame_clamp e s) = end_key_down s"
  "end_alignment_active (frame_clamp e s) = end_alignment_active s"
  "end_press_tick (frame_clamp e s) = end_press_tick s"
  "end_ignore_inputs_until (frame_clamp e s) = end_ignore_inputs_until s"
  "has_putty_anchor (frame_clamp e s) = has_putty_anchor s"
  "putty_anchor_source (frame_clamp e s) = putty_anchor_source s"
  "magnifier (frame_clamp e s) = magnifier s"
  "magnifier_active (frame_clamp e s) = magnifier_active s"
  "config_zoom (frame_clamp e s) = config_zoom s"
  "config_saves (frame_clamp e s) = config_saves s"
  "layout_overlay (frame_clamp e s) = layout_overlay s"
  by (simp_all add: frame_clamp_def)

lemma messenger_clamp_fields [simp]:
  "source_index (messenger_clamp e s) = source_index s"
  "view_state (messenger_clamp e s) = view_state s"
  "mouse_position (messenger_clamp e s) = mouse_position s"
  "caret_position (messenger_clamp e s) = caret_position s"
  "focus_rect (messenger_clamp e s) = focus_rect s"
  "zoom (messenger_clamp e s) = zoom s"
  "tracking_mode (messenger_clamp e s) = tracking_mode s"
  "last_caret_tick (messenger_clamp e s) = last_caret_tick s"
  "last_caret_target_tick (messenger_clamp e s) = last_caret_target_tick s"
  "last_mouse_tick (messenger_clamp e s) = last_mouse_tick s"
  "last_focus_tick (messenger_clamp e s) = last_focus_tick s"
  "has_center (messenger_clamp e s) = has_center s"
  "previous_center_x (messenger_clamp e s) = previous_center_x s"
  "previous_center_y (messenger_clamp e s) = previous_center_y s"
  "has_previous_center (messenger_clamp e s) = has_previous_center s"
  "previous_center_saved_tick (messenger_clamp e s) = previous_center_saved_tick s"
  "dead_zone_pixels (messenger_clamp e s) = dead_zone_pixels s"
  "smoothing_factor (messenger_clamp e s) = smoothing_factor s"
  "invert_colors (messenger_clamp e s) = invert_colors s"
  "last_user_activity_tick (messenger_clamp e s) = last_user_activity_tick s"
  "last_click_position (messenger_clamp e s) = last_click_position s"
  "last_click_tick (messenger_clamp e s) = last_click_tick s"
  "has_last_click (messenger_clamp e s) = has_last_click s"
  "click_lock_active (messenger_clamp e s) = click_lock_active s"
  "last_click_source (messenger_clamp e s) = last_click_source s"
  "messenger_zone_source (messenger_clamp e s) = messenger_zone_source s"
  "messenger_anchor (messenger_clamp e s) = messenger_anchor s"
  "end_key_down (messenger_clamp e s) = end_key_down s"
  "end_alignment_active (messenger_clamp e s) = end_alignment_active s"
  "end_press_tick (messenger_clamp e s) = end_press_tick s"
  "end_ignore_inputs_until (messenger_clamp e s) = end_ignore_inputs_until s"
  "has_putty_anchor (messenger_clamp e s) = has_putty_anchor s"
  "putty_anchor_source (messenger_clamp e s) = putty_anchor_source s"
  "magnifier (messenger_clamp e s) = magnifier s"
  "magnifier_active (messenger_clamp e s) = magnifier_active s"
  "config_zoom (messenger_clamp e s) = config_zoom s"
  "config_saves (messenger_clamp e s) = config_saves s"
  "layout_overlay (messenger_clamp e s) = layout_overlay s"
  by (simp_all add: messenger_clamp_def)

text \<open>The view rectangle depends on the frame and the zoom only.\<close>

lemma view_rectangle_updates [simp]:
  "view_width e (view_state_update u_view_state s) = view_width e s"
  "view_width e (last_caret_target_tick_update u_last_caret_target_tick s) = view_width e s"
  "view_width e (current_center_x_update u_current_center_x s) = view_width e s"
  "view_width e (current_center_y_update u_current_center_y s) = view_width e s"
  "view_width e (has_center_update u_has_center s) = view_width e s"
  "view_width e (previous_center_x_update u_previous_center_x s) = view_width e s"
  "view_width e (previous_center_y_update u_previous_center_y s) = view_width e s"
  "view_width e (has_previous_center_update u_has_previous_center s) = view_width e s"
  "view_width e (previous_center_saved_tick_update u_previous_center_saved_tick s) = view_width e s"
  "view_width e (click_lock_active_update u_click_lock_active s) = view_width e s"
  "view_width e (last_click_source_update u_last_click_source s) = view_width e s"
  "view_width e (messenger_zone_active_update u_messenger_zone_active s) = view_width e s"
  "view_width e (has_putty_anchor_update u_has_putty_anchor s) = view_width e s"
  "view_width e (putty_anchor_source_update u_putty_anchor_source s) = view_width e s"
  "view_width e (end_alignment_active_update u_end_alignment_active s) = view_width e s"
  "view_height e (view_state_update u_view_state s) = view_height e s"
  "view_height e (last_caret_target_tick_update u_last_caret_target_tick s) = view_height e s"
  "view_height e (current_center_x_update u_current_center_x s) = view_height e s"
  "view_height e (current_center_y_update u_current_center_y s) = view_height e s"
  "view_height e (has_center_update u_has_center s) = view_height e s"
  "view_height e (previous_center_x_update u_previous_center_x s) = view_height e s"
  "view_height e (previous_center_y_update u_previous_center_y s) = view_height e s"
  "view_height e (has_previous_center_update u_has_previous_center s) = view_height e s"
  "view_height e (previous_center_saved_tick_update u_previous_center_saved_tick s) = view_height e s"
  "view_height e (click_lock_active_update u_click_lock_active s) = view_height e s"
  "view_height e (last_click_source_update u_last_click_source s) = view_height e s"
  "view_height e (messenger_zone_active_update u_messenger_zone_active s) = view_height e s"
  "view_height e (has_putty_anchor_update u_has_putty_anchor s) = view_height e s"
  "view_height e (putty_anchor_source_update u_putty_anchor_source s) = view_height e s"
  "view_height e (end_alignment_active_update u_end_alignment_active s) = view_height e s"
  "half_w e (view_state_update u_view_state s) = half_w e s"
  "half_w e (last_caret_target_tick_update u_last_caret_target_tick s) = half_w e s"
  "half_w e (current_center_x_update u_current_center_x s) = half_w e s"
  "half_w e (current_center_y_update u_current_center_y s) = half_w e s"
  "half_w e (has_center_update u_has_center s) = half_w e s"
  "half_w e (previous_center_x_update u_previous_center_x s) = half_w e s"
  "half_w e (previous_center_y_update u_previous_center_y s) = half_w e s"
  "half_w e (has_previous_center_update u_has_previous_center s) = half_w e s"
  "half_w e (previous_center_saved_tick_update u_previous_center_saved_tick s) = half_w e s"
  "half_w e (click_lock_active_update u_click_lock_active s) = half_w e s"
  "half_w e (last_click_source_update u_last_click_source s) = half_w e s"
  "half_w e (messenger_zone_active_update u_messenger_zone_active s) = half_w e s"
  "half_w e (has_putty_anchor_update u_has_putty_anchor s) = half_w e s"
  "half_w e (putty_anchor_source_update u_putty_anchor_source s) = half_w e s"
  "half_w e (end_alignment_active_update u_end_alignment_active s) = half_w e s"
  "half_h e (view_state_update u_view_state s) = half_h e s"
  "half_h e (last_caret_target_tick_update u_last_caret_target_tick s) = half_h e s"
  "half_h e (current_center_x_update u_current_center_x s) = half_h e s"
  "half_h e (current_center_y_update u_current_center_y s) = half_h e s"
  "half_h e (has_center_update u_has_center s) = half_h e s"
  "half_h e (previous_center_x_update u_previous_center_x s) = half_h e s"
  "half_h e (previous_center_y_update u_previous_center_y s) = half_h e s"
  "half_h e (has_previous_center_update u_has_previous_center s) = half_h e s"
  "half_h e (previous_center_saved_tick_update u_previous_center_saved_tick s) = half_h e s"
  "half_h e (click_lock_active_update u_click_lock_active s) = half_h e s"
  "half_h e (last_click_source_update u_last_click_source s) = half_h e s"
  "half_h e (messenger_zone_active_update u_messenger_zone_active s) = half_h e s"
  "half_h e (has_putty_anchor_update u_has_putty_anchor s) = half_h e s"
  "half_h e (putty_anchor_source_update u_putty_anchor_source s) = half_h e s"
  "half_h e (end_alignment_active_update u_end_alignment_active s) = half_h e s"
  by (simp_all add: view_width_def view_height_def half_w_def half_h_def)

lemma view_rectangle_blocks [simp]:
  "view_width e (reset_overlay s) = view_width e s"
  "view_width e (expire_putty_anchor e s) = view_width e s"
  "view_width e (place_cursor e s) = view_width e s"
  "view_width e (record_previous_center e d s) = view_width e s"
  "view_width e (write_source_region e s) = view_width e s"
  "view_height e (reset_overlay s) = view_height e s"
  "view_height e (expire_putty_anchor e s) = view_height e s"
  "view_height e (place_cursor e s) = view_height e s"
  "view_height e (record_previous_center e d s) = view_height e s"
  "view_height e (write_source_region e s) = view_height e s"
  "half_w e (reset_overlay s) = half_w e s"
  "half_w e (expire_putty_anchor e s) = half_w e s"
  "half_w e (place_cursor e s) = half_w e s"
  "half_w e (record_previous_center e d s) = half_w e s"
  "half_w e (write_source_region e s) = half_w e s"
  "half_h e (reset_overlay s) = half_h e s"
  "half_h e (expire_putty_anchor e s) = half_h e s"
  "half_h e (place_cursor e s) = half_h e s"
  "half_h e (record_previous_center e d s) = half_h e s"
  "half_h e (write_source_region e s) = half_h e s"
  by (simp_all add: view_width_def view_height_def half_w_def half_h_def)

lemma view_rectangle_clamps [simp]:
  "view_width e (frame_clamp e s) = view_width e s"
  "view_height e (frame_clamp e s) = view_height e s"
  "half_w e (frame_clamp e s) = half_w e s"
  "half_h e (frame_clamp e s) = half_h e s"
  "view_width e (messenger_clamp e s) = view_width e s"
  "view_height e (messenger_clamp e s) = view_height e s"
  "half_w e (messenger_clamp e s) = half_w e s"
  "half_h e (messenger_clamp e s) = half_h e s"
  by (simp_all add: view_width_def view_height_def half_w_def half_h_def)

text \<open>The conversion to source coordinates depends on the source index and the monitor only.\<close>

lemma ScreenToSource_updates [simp]:
  "ScreenToSource e (view_state_update u_view_state s) = ScreenToSource e s"
  "ScreenToSource e (last_caret_target_tick_update u_last_caret_target_tick s) = ScreenToSource e s"
  "ScreenToSource e (current_center_x_update u_current_center_x s) = ScreenToSource e s"
  "ScreenToSource e (current_center_y_update u_current_center_y s) = ScreenToSource e s"
  "ScreenToSource e (has_center_update u_has_center s) = ScreenToSource e s"
  "ScreenToSource e (previous_center_x_update u_previous_center_x s) = ScreenToSource e s"
  "ScreenToSource e (previous_center_y_update u_previous_center_y s) = ScreenToSource e s"
  "ScreenToSource e (has_previous_center_update u_has_previous_center s) = ScreenToSource e s"
  "ScreenToSource e (previous_center_saved_tick_update u_previous_center_saved_tick s) = ScreenToSource e s"
  "ScreenToSource e (click_lock_active_update u_click_lock_active s) = ScreenToSource e s"
  "ScreenToSource e (last_click_source_update u_last_click_source s) = ScreenToSource e s"
  "ScreenToSource e (messenger_zone_active_update u_messenger_zone_active s) = ScreenToSource e s"
  "ScreenToSource e (has_putty_anchor_update u_has_putty_anchor s) = ScreenToSource e s"
  "ScreenToSource e (putty_anchor_source_update u_putty_anchor_source s) = ScreenToSource e s"
  "ScreenToSource e (end_alignment_active_update u_end_alignment_active s) = ScreenToSource e s"
  "ScreenToSource e (reset_overlay s) = ScreenToSource e s"
  "ScreenToSource e (expire_putty_anchor e s) = ScreenToSource e s"
  "ScreenToSource e (place_cursor e s) = ScreenToSource e s"
  "ScreenToSource e (record_previous_center e d s) = ScreenToSource e s"
  by (simp_all add: ScreenToSource_def fun_eq_iff)

lemma rect_center_to_source_blocks [simp]:
  "rect_center_to_source e (reset_overlay s) = rect_center_to_source e s"
  "rect_center_to_source e (expire_putty_anchor e s) = rect_center_to_source e s"
  "rect_center_to_source e (place_cursor e s) = rect_center_to_source e s"
  by (simp_all add: rect_center_to_source_def fun_eq_iff)

text \<open>Choosing the target changes nothing but the record of the last caret-driven update.\<close>

lemma select_target_frame:
  "fst (select_target e sp s)
     = s\<lparr>last_caret_target_tick := last_caret_target_tick (fst (select_target e sp s))\<rparr>"
  by (simp add: select_target_def use_caret_def use_mouse_def use_focus_def Let_def
           split: TrackingMode.splits option.splits)

lemma select_target_fields [simp]:
  "source_index (fst (select_target e sp s)) = source_index s"
  "view_state (fst (select_target e sp s)) = view_state s"
  "mouse_position (fst (select_target e sp s)) = mouse_position s"
  "caret_position (fst (select_target e sp s)) = caret_position s"
  "focus_rect (fst (select_target e sp s)) = focus_rect s"
  "zoom (fst (select_target e sp s)) = zoom s"
  "tracking_mode (fst (select_target e sp s)) = tracking_mode s"
  "last_caret_tick (fst (select_target e sp s)) = last_caret_tick s"
  "last_mouse_tick (fst (select_target e sp s)) = last_mouse_tick s"
  "last_focus_tick (fst (select_target e sp s)) = last_focus_tick s"
  "current_center_x (fst (select_target e sp s)) = current_center_x s"
  "current_center_y (fst (select_target e sp s)) = current_center_y s"
  "has_center (fst (select_target e sp s)) = has_center s"
  "previous_center_x (fst (select_target e sp s)) = previous_center_x s"
  "previous_center_y (fst (select_target e sp s)) = previous_center_y s"
  "has_previous_center (fst (select_target e sp s)) = has_previous_center s"
  "previous_center_saved_tick (fst (select_target e sp s)) = previous_center_saved_tick s"
  "dead_zone_pixels (fst (select_target e sp s)) = dead_zone_pixels s"
  "smoothing_factor (fst (select_target e sp s)) = smoothing_factor s"
  "invert_colors (fst (select_target e sp s)) = invert_colors s"
  "last_user_activity_tick (fst (select_target e sp s)) = last_user_activity_tick s"
  "last_click_position (fst (select_target e sp s)) = last_click_position s"
  "last_click_tick (fst (select_target e sp s)) = last_click_tick s"
  "has_last_click (fst (select_target e sp s)) = has_last_click s"
  "click_lock_active (fst (select_target e sp s)) = click_lock_active s"
  "last_click_source (fst (select_target e sp s)) = last_click_source s"
  "messenger_zone_active (fst (select_target e sp s)) = messenger_zone_active s"
  "messenger_zone_source (fst (select_target e sp s)) = messenger_zone_source s"
  "messenger_anchor (fst (select_target e sp s)) = messenger_anchor s"
  "end_key_down (fst (select_target e sp s)) = end_key_down s"
  "end_alignment_active (fst (select_target e sp s)) = end_alignment_active s"
  "end_press_tick (fst (select_target e sp s)) = end_press_tick s"
  "end_ignore_inputs_until (fst (select_target e sp s)) = end_ignore_inputs_until s"
  "has_putty_anchor (fst (select_target e sp s)) = has_putty_anchor s"
  "putty_anchor_source (fst (select_target e sp s)) = putty_anchor_source s"
  "magnifier (fst (select_target e sp s)) = magnifier s"
  "magnifier_active (fst (select_target e sp s)) = magnifier_active s"
  "config_zoom (fst (select_target e sp s)) = config_zoom s"
  "config_saves (fst (select_target e sp s)) = config_saves s"
  "layout_overlay (fst (select_target e sp s)) = layout_overlay s"
  by (subst select_target_frame, simp)+

section \<open>Properties of GetSelectedText\<close>












section \<open>Properties of the capture engine\<close>

lemma AcquireFrame_timeout:
  "duplication c \<Longrightarrow>
     snd (AcquireFrame WAIT_TIMEOUT as_ok c) = False
     \<and> needs_reinitialize (fst (AcquireFrame WAIT_TIMEOUT as_ok c)) = needs_reinitialize c
     \<and> duplication (fst (AcquireFrame WAIT_TIMEOUT as_ok c))"
  by (simp add: AcquireFrame_def)

lemma AcquireFrame_lost:
  "duplication c \<Longrightarrow> hr = ACCESS_LOST \<or> hr = OTHER_FAILURE \<Longrightarrow>
     snd (AcquireFrame hr as_ok c) = False
     \<and> needs_reinitialize (fst (AcquireFrame hr as_ok c))
     \<and> \<not> duplication (fst (AcquireFrame hr as_ok c))
     \<and> \<not> staging (fst (AcquireFrame hr as_ok c))"
  by (auto simp: AcquireFrame_def)

lemma AcquireFrame_query_failed:
  "duplication c \<Longrightarrow>
     snd (AcquireFrame S_OK False c) = False
     \<and> needs_reinitialize (fst (AcquireFrame S_OK False c)) = needs_reinitialize c
     \<and> duplication (fst (AcquireFrame S_OK False c))"
  by (simp add: AcquireFrame_def)

lemma Reinitialize_success:
  assumes "Reinitialize create_ok outcome c = (c', True)"
  shows "\<not> needs_reinitialize c' \<and> device c' \<and> duplication c' \<and> staging c'
         \<and> source_monitor c' = source_monitor c \<and> source_monitor c \<noteq> None"
  using assms
  by (cases outcome)
     (auto simp: Reinitialize_def EnsureDevice_def CreateDuplication_def Let_def
           split: if_splits)

text \<open>
  Claim C4, as the code has it. With a duplication session: a wait timeout returns no frame
  and keeps the session and \<open>NeedsReinitialize()\<close> as they were; access lost and every
  other failure of \<open>AcquireNextFrame\<close> return no frame, drop the session and set
  \<open>NeedsReinitialize()\<close>; a frame that was acquired but whose texture interface cannot be
  queried returns no frame and keeps the session and \<open>NeedsReinitialize()\<close> as they were.
  A successful \<open>Reinitialize()\<close> leaves a device, a session and a staging texture for the
  same source monitor, and \<open>NeedsReinitialize()\<close> false.
\<close>

theorem AcquireFrame_outcomes:
  "(duplication c \<longrightarrow>
      snd (AcquireFrame WAIT_TIMEOUT as_ok c) = False
      \<and> NeedsReinitialize (fst (AcquireFrame WAIT_TIMEOUT as_ok c)) = NeedsReinitialize c
      \<and> duplication (fst (AcquireFrame WAIT_TIMEOUT as_ok c)))
   \<and> (duplication c \<and> (hr = ACCESS_LOST \<or> hr = OTHER_FAILURE) \<longrightarrow>
      snd (AcquireFrame hr as_ok c) = False
      \<and> NeedsReinitialize (fst (AcquireFrame hr as_ok c))
      \<and> \<not> duplication (fst (AcquireFrame hr as_ok c))
      \<and> \<not> staging (fst (AcquireFrame hr as_ok c)))
   \<and> (duplication c \<longrightarrow>
      snd (AcquireFrame S_OK False c) = False
      \<and> NeedsReinitialize (fst (AcquireFrame S_OK False c)) = NeedsReinitialize c
      \<and> duplication (fst (AcquireFrame S_OK False c)))
   \<and> (Reinitialize create_ok outcome c = (c', True) \<longrightarrow>
      \<not> NeedsReinitialize c' \<and> device c' \<and> duplication c' \<and> staging c'
      \<and> source_monitor c' = source_monitor c \<and> source_monitor c \<noteq> None)"
  using AcquireFrame_timeout [of c as_ok] AcquireFrame_lost [of c hr as_ok]
    AcquireFrame_query_failed [of c] Reinitialize_success [of create_ok outcome c c']
  unfolding NeedsReinitialize_def by blast

theorem AcquireFrame_outcomes_witness:
  "snd (AcquireFrame WAIT_TIMEOUT True engine_running) = False
   \<and> \<not> NeedsReinitialize (fst (AcquireFrame WAIT_TIMEOUT True engine_running))
   \<and> NeedsReinitialize (fst (AcquireFrame ACCESS_LOST True engine_running))
   \<and> \<not> duplication (fst (AcquireFrame ACCESS_LOST True engine_running))
   \<and> Reinitialize True CREATED (fst (AcquireFrame ACCESS_LOST True engine_running))
       = (engine_running, True)
   \<and> \<not> NeedsReinitialize engine_running
   \<and> source_monitor engine_running = Some 1"
  using AcquireFrame_outcomes [of engine_running True ACCESS_LOST True CREATED engine_running]
    AcquireFrame_outcomes [of "fst (AcquireFrame ACCESS_LOST True engine_running)" True
      ACCESS_LOST True CREATED engine_running]
  by (simp add: engine_running_def NeedsReinitialize_def AcquireFrame_def Reinitialize_def
        EnsureDevice_def CreateDuplication_def)

text \<open>
  The claim as stated fails where the frame was acquired and the query for its texture
  fails: no frame is returned, and \<open>NeedsReinitialize()\<close> stays false.
\<close>

theorem AcquireFrame_query_failure_counterexample:
  "snd (AcquireFrame S_OK False engine_running) = False
   \<and> \<not> NeedsReinitialize (fst (AcquireFrame S_OK False engine_running))"
  by (simp add: engine_running_def NeedsReinitialize_def AcquireFrame_def)

section \<open>Properties of ChangeZoom\<close>










section \<open>Choosing the target\<close>

lemma default_target_no_target [simp]:
  "have_target (default_target e) = False" "target_is_caret (default_target e) = False"
  by (simp_all add: default_target_def)

lemma use_caret_taken:
  assumes "caret_fresh e s" "ScreenToSource e s (caret_position s) = Some p"
  shows "use_caret e False s t =
           (True, s\<lparr>last_caret_target_tick := now e\<rparr>,
            t\<lparr>target := p\<lparr>fp_x := f32 (fp_x p + 4)\<rparr>, have_target := True, target_is_caret := True\<rparr>)"
  using assms by (simp add: use_caret_def caret_fresh_def Let_def not_less)

lemma use_caret_refused:
  assumes "\<not> caret_fresh e s \<or> ScreenToSource e s (caret_position s) = None"
  shows "use_caret e False s t = (False, s, t\<lparr>target_is_caret := False\<rparr>)"
  using assms by (auto simp: use_caret_def caret_fresh_def Let_def not_le)

lemma use_mouse_taken_auto:
  assumes "tracking_mode s = Auto" "pointer_fresh e s"
    "last_caret_target_tick s < last_mouse_tick s"
    "ScreenToSource e s (mouse_position s) = Some m"
  shows "use_mouse e False s t =
           (True, s\<lparr>last_caret_target_tick := 0\<rparr>, t\<lparr>target := m, have_target := True\<rparr>)"
  using assms by (simp add: use_mouse_def pointer_fresh_def not_less)

lemma use_mouse_refused_auto:
  assumes "tracking_mode s = Auto"
    "\<not> pointer_fresh e s \<or> last_mouse_tick s \<le> last_caret_target_tick s
      \<or> ScreenToSource e s (mouse_position s) = None"
  shows "use_mouse e False s t = (False, s, t)"
  using assms by (auto simp: use_mouse_def pointer_fresh_def not_le)

lemma use_focus_taken:
  assumes "focus_fresh e s" "rect_center_to_source e s (focus_rect s) = Some f"
  shows "use_focus e False s t = (True, s, t\<lparr>target := f, have_target := True\<rparr>)"
  using assms by (simp add: use_focus_def focus_fresh_def not_less)

lemma use_focus_refused:
  assumes "\<not> focus_fresh e s \<or> rect_center_to_source e s (focus_rect s) = None"
  shows "use_focus e False s t = (False, s, t)"
  using assms by (auto simp: use_focus_def focus_fresh_def not_le)

lemma target_sel_reset [simp]:
  "(default_target e)\<lparr>target_is_caret := False\<rparr> = default_target e"
  "(default_target e)\<lparr>have_target := False\<rparr> = default_target e"
  by (simp_all add: default_target_def)

text \<open>
  Claim C3, as the code has it. In Auto mode, with the inputs not suppressed by the End
  key: a caret signal that is fresh (within 600 ms) and maps into the source monitor is
  the target, whatever the pointer did, and the tick of this caret-driven update is
  recorded. Without a usable caret signal, a pointer signal that is fresh (within 160 ms),
  newer than the last caret-driven update and inside the monitor is the target, and the
  record of the last caret-driven update is reset. Without either, the centre of a focus
  rectangle that is fresh (within 900 ms) and inside the monitor is the target. Otherwise
  there is no target.
\<close>

theorem auto_mode_priority:
  "tracking_mode s = Auto \<longrightarrow>
   (caret_fresh e s \<and> ScreenToSource e s (caret_position s) = Some p \<longrightarrow>
      select_target e False s =
        (s\<lparr>last_caret_target_tick := now e\<rparr>,
         \<lparr>target = p\<lparr>fp_x := f32 (fp_x p + 4)\<rparr>, have_target = True, target_is_caret = True\<rparr>))
   \<and> ((\<not> caret_fresh e s \<or> ScreenToSource e s (caret_position s) = None)
        \<and> pointer_fresh e s \<and> last_caret_target_tick s < last_mouse_tick s
        \<and> ScreenToSource e s (mouse_position s) = Some m \<longrightarrow>
      select_target e False s =
        (s\<lparr>last_caret_target_tick := 0\<rparr>,
         \<lparr>target = m, have_target = True, target_is_caret = False\<rparr>))
   \<and> ((\<not> caret_fresh e s \<or> ScreenToSource e s (caret_position s) = None)
        \<and> (\<not> pointer_fresh e s \<or> last_mouse_tick s \<le> last_caret_target_tick s
             \<or> ScreenToSource e s (mouse_position s) = None)
        \<and> focus_fresh e s \<and> rect_center_to_source e s (focus_rect s) = Some f \<longrightarrow>
      select_target e False s =
        (s, \<lparr>target = f, have_target = True, target_is_caret = False\<rparr>))
   \<and> ((\<not> caret_fresh e s \<or> ScreenToSource e s (caret_position s) = None)
        \<and> (\<not> pointer_fresh e s \<or> last_mouse_tick s \<le> last_caret_target_tick s
             \<or> ScreenToSource e s (mouse_position s) = None)
        \<and> (\<not> focus_fresh e s \<or> rect_center_to_source e s (focus_rect s) = None) \<longrightarrow>
      select_target e False s = (s, default_target e))"
proof (intro impI conjI)
  assume a: "tracking_mode s = Auto"
  {
    assume "caret_fresh e s \<and> ScreenToSource e s (caret_position s) = Some p"
    then show "select_target e False s =
        (s\<lparr>last_caret_target_tick := now e\<rparr>,
         \<lparr>target = p\<lparr>fp_x := f32 (fp_x p + 4)\<rparr>, have_target = True, target_is_caret = True\<rparr>)"
      using a by (simp add: select_target_def use_caret_taken default_target_def)
  next
    assume h: "(\<not> caret_fresh e s \<or> ScreenToSource e s (caret_position s) = None)
        \<and> pointer_fresh e s \<and> last_caret_target_tick s < last_mouse_tick s
        \<and> ScreenToSource e s (mouse_position s) = Some m"
    then have "use_caret e False s (default_target e) = (False, s, default_target e)"
      using use_caret_refused [of e s "default_target e"] by simp
    then show "select_target e False s =
        (s\<lparr>last_caret_target_tick := 0\<rparr>,
         \<lparr>target = m, have_target = True, target_is_caret = False\<rparr>)"
      using a h by (simp add: select_target_def use_mouse_taken_auto default_target_def)
  next
    assume h: "(\<not> caret_fresh e s \<or> ScreenToSource e s (caret_position s) = None)
        \<and> (\<not> pointer_fresh e s \<or> last_mouse_tick s \<le> last_caret_target_tick s
             \<or> ScreenToSource e s (mouse_position s) = None)
        \<and> focus_fresh e s \<and> rect_center_to_source e s (focus_rect s) = Some f"
    then have "use_caret e False s (default_target e) = (False, s, default_target e)"
      using use_caret_refused [of e s "default_target e"] by simp
    moreover have "use_mouse e False s (default_target e) = (False, s, default_target e)"
      using use_mouse_refused_auto [of s e "default_target e"] a h by simp
    ultimately show "select_target e False s =
        (s, \<lparr>target = f, have_target = True, target_is_caret = False\<rparr>)"
      using a h by (simp add: select_target_def use_focus_taken default_target_def)
  next
    assume h: "(\<not> caret_fresh e s \<or> ScreenToSource e s (caret_position s) = None)
        \<and> (\<not> pointer_fresh e s \<or> last_mouse_tick s \<le> last_caret_target_tick s
             \<or> ScreenToSource e s (mouse_position s) = None)
        \<and> (\<not> focus_fresh e s \<or> rect_center_to_source e s (focus_rect s) = None)"
    then have "use_caret e False s (default_target e) = (False, s, default_target e)"
      using use_caret_refused [of e s "default_target e"] by simp
    moreover have "use_mouse e False s (default_target e) = (False, s, default_target e)"
      using use_mouse_refused_auto [of s e "default_target e"] a h by simp
    moreover have "use_focus e False s (default_target e) = (False, s, default_target e)"
      using use_focus_refused [of e s "default_target e"] h by simp
    ultimately show "select_target e False s = (s, default_target e)"
      using a by (simp add: select_target_def)
  }
qed

theorem auto_mode_priority_witness:
  "select_target at_1510 False app_typing =
     (app_typing\<lparr>last_caret_target_tick := 1510\<rparr>,
      \<lparr>target = \<lparr>fp_x = 104, fp_y = 100\<rparr>, have_target = True, target_is_caret = True\<rparr>)
   \<and> select_target at_1650 False app_typing =
     (app_typing\<lparr>last_caret_target_tick := 0\<rparr>,
      \<lparr>target = \<lparr>fp_x = 500, fp_y = 500\<rparr>, have_target = True, target_is_caret = False\<rparr>)
   \<and> select_target at_2000 False app_typing =
     (app_typing,
      \<lparr>target = \<lparr>fp_x = 300, fp_y = 250\<rparr>, have_target = True, target_is_caret = False\<rparr>)
   \<and> select_target at_5000 False app_typing = (app_typing, default_target at_5000)"
proof -
  have caret: "ScreenToSource e app_typing (caret_position app_typing) = Some \<lparr>fp_x = 100, fp_y = 100\<rparr>"
    if "monitor e = monitor screen_1080p" for e
    using ScreenToSource_1080p [of app_typing e 100 100] that by (simp add: app_typing_def)
  have mouse: "ScreenToSource e app_typing (mouse_position app_typing) = Some \<lparr>fp_x = 500, fp_y = 500\<rparr>"
    if "monitor e = monitor screen_1080p" for e
    using ScreenToSource_1080p [of app_typing e 500 500] that by (simp add: app_typing_def)
  have focus: "rect_center_to_source e app_typing (focus_rect app_typing) = Some \<lparr>fp_x = 300, fp_y = 250\<rparr>"
    if "monitor e = monitor screen_1080p" for e
    using ScreenToSource_1080p [of app_typing e 300 250] that
    by (simp add: app_typing_def rect_center_to_source_def cdiv_def)
  have mode: "tracking_mode app_typing = Auto" by (simp add: app_typing_def)
  have ticks: "last_caret_tick app_typing = 1000" "last_caret_target_tick app_typing = 1494"
    "last_mouse_tick app_typing = 1500" "last_focus_tick app_typing = 1400"
    by (simp_all add: app_typing_def)
  show ?thesis
    using auto_mode_priority [of app_typing at_1510 "\<lparr>fp_x = 100, fp_y = 100\<rparr>"]
      auto_mode_priority [of app_typing at_1650 _ "\<lparr>fp_x = 500, fp_y = 500\<rparr>"]
      auto_mode_priority [of app_typing at_2000 _ _ "\<lparr>fp_x = 300, fp_y = 250\<rparr>"]
      auto_mode_priority [of app_typing at_5000]
      caret [of at_1510] caret [of at_1650] caret [of at_2000] caret [of at_5000]
      mouse [of at_1650] mouse [of at_2000] mouse [of at_5000]
      focus [of at_2000] focus [of at_5000]
    by (simp add: mode ticks fresh_defs at_1510_def at_1650_def at_2000_def at_5000_def float_literals)
qed

text \<open>
  The claim as stated lets a pointer event newer than the last caret-driven update take
  the priority from the caret. Here the caret is fresh, and the pointer is fresh, inside
  the monitor and newer than both the caret signal and the last caret-driven update: the
  caret is still the target.
\<close>

theorem caret_not_superseded_counterexample:
  "tracking_mode app_typing = Auto
   \<and> caret_fresh at_1510 app_typing \<and> pointer_fresh at_1510 app_typing
   \<and> last_caret_tick app_typing < last_mouse_tick app_typing
   \<and> last_caret_target_tick app_typing < last_mouse_tick app_typing
   \<and> ScreenToSource at_1510 app_typing (mouse_position app_typing) = Some \<lparr>fp_x = 500, fp_y = 500\<rparr>
   \<and> snd (select_target at_1510 False app_typing) =
         \<lparr>target = \<lparr>fp_x = 104, fp_y = 100\<rparr>, have_target = True, target_is_caret = True\<rparr>"
proof -
  have "ScreenToSource at_1510 app_typing (caret_position app_typing) = Some \<lparr>fp_x = 100, fp_y = 100\<rparr>"
    using ScreenToSource_1080p [of app_typing at_1510 100 100] by (simp add: app_typing_def at_1510_def)
  moreover have "ScreenToSource at_1510 app_typing (mouse_position app_typing) = Some \<lparr>fp_x = 500, fp_y = 500\<rparr>"
    using ScreenToSource_1080p [of app_typing at_1510 500 500] by (simp add: app_typing_def at_1510_def)
  ultimately show ?thesis
    by (simp add: select_target_def use_caret_def default_target_def app_typing_def at_1510_def
          fresh_defs float_literals)
qed

section \<open>One resolution, block by block\<close>

lemma resolve_center_no_end_key:
  "\<not> end_key_down s \<Longrightarrow> \<not> end_alignment_active s \<Longrightarrow> resolve_center e t s = move_center e t s"
  by (simp add: resolve_center_def capture_putty_anchor_def update_end_alignment_def
        putty_alignment_applied_def)

text \<open>A resolution without End key handling, block by block.\<close>

lemma UpdateViewState_no_end_key:
  assumes "resolution_runs e s" "no_end_key e s"
  shows "UpdateViewState e s =
           write_source_region e (frame_clamp e (messenger_clamp e
             (move_center e
                (snd (select_target e False
                   (place_cursor e (expire_putty_anchor e (reset_overlay s)))))
                (fst (select_target e False
                   (place_cursor e (expire_putty_anchor e (reset_overlay s))))))))"
proof -
  have "\<not> inputs_suppressed e (expire_putty_anchor e (reset_overlay s))"
    using assms(2) by (simp add: inputs_suppressed_def no_end_key_def not_less)
  moreover have "resolve_center e t (fst (select_target e False
                   (place_cursor e (expire_putty_anchor e (reset_overlay s)))))
      = move_center e t (fst (select_target e False
                   (place_cursor e (expire_putty_anchor e (reset_overlay s)))))" for t
    using assms(2) by (intro resolve_center_no_end_key) (simp_all add: no_end_key_def)
  ultimately show ?thesis
    using assms(1)
    by (simp add: UpdateViewState_def resolution_runs_def Let_def case_prod_beta not_less)
qed


lemma fresh_prelude [simp]:
  "caret_fresh e (place_cursor e (expire_putty_anchor e (reset_overlay s))) = caret_fresh e s"
  "pointer_fresh e (place_cursor e (expire_putty_anchor e (reset_overlay s))) = pointer_fresh e s"
  "focus_fresh e (place_cursor e (expire_putty_anchor e (reset_overlay s))) = focus_fresh e s"
  by (simp_all add: caret_fresh_def pointer_fresh_def focus_fresh_def)

lemma no_fresh_signal_prelude [simp]:
  "no_fresh_signal e (place_cursor e (expire_putty_anchor e (reset_overlay s))) = no_fresh_signal e s"
  by (simp add: no_fresh_signal_def cong: TrackingMode.case_cong)













lemma move_center_first:
  assumes "\<not> has_center s" "\<not> click_lock_active s"
  shows "move_center e t s =
           s\<lparr>current_center_x := fp_x (target t), current_center_y := fp_y (target t),
             has_center := True\<rparr>"
  using assms by (simp add: move_center_def SnapCenterTo_def ApplyClickMovementLimit_def)




section \<open>The choice of the target depends on the signals only\<close>

lemma ScreenToSource_cong:
  "source_index s' = source_index s \<Longrightarrow> ScreenToSource e s' pt = ScreenToSource e s pt"
  by (simp add: ScreenToSource_def)

lemma use_caret_same_signals:
  assumes "same_signals s' s"
  shows "use_caret e sp s' t =
     (fst (use_caret e sp s t),
      s'\<lparr>last_caret_target_tick := last_caret_target_tick (fst (snd (use_caret e sp s t)))\<rparr>,
      snd (snd (use_caret e sp s t)))"
proof -
  have "ScreenToSource e s' (caret_position s') = ScreenToSource e s (caret_position s')"
    by (rule ScreenToSource_cong) (use assms in \<open>simp add: same_signals_def\<close>)
  then have "ScreenToSource e s' (caret_position s') = ScreenToSource e s (caret_position s)"
    using assms by (simp add: same_signals_def)
  moreover have "last_caret_tick s' = last_caret_tick s"
    "last_caret_target_tick s' = last_caret_target_tick s"
    using assms by (simp_all add: same_signals_def)
  moreover have "s'\<lparr>last_caret_target_tick := last_caret_target_tick s\<rparr> = s'"
    using \<open>last_caret_target_tick s' = last_caret_target_tick s\<close> [symmetric] by simp
  ultimately show ?thesis
    by (simp add: use_caret_def Let_def split: option.splits)
qed

lemma use_mouse_same_signals:
  assumes "same_signals s' s"
  shows "use_mouse e sp s' t =
     (fst (use_mouse e sp s t),
      s'\<lparr>last_caret_target_tick := last_caret_target_tick (fst (snd (use_mouse e sp s t)))\<rparr>,
      snd (snd (use_mouse e sp s t)))"
proof -
  have "ScreenToSource e s' (mouse_position s') = ScreenToSource e s (mouse_position s')"
    by (rule ScreenToSource_cong) (use assms in \<open>simp add: same_signals_def\<close>)
  then have "ScreenToSource e s' (mouse_position s') = ScreenToSource e s (mouse_position s)"
    using assms by (simp add: same_signals_def)
  moreover have "last_mouse_tick s' = last_mouse_tick s" "tracking_mode s' = tracking_mode s"
    "last_caret_target_tick s' = last_caret_target_tick s"
    using assms by (simp_all add: same_signals_def)
  moreover have "s'\<lparr>last_caret_target_tick := last_caret_target_tick s\<rparr> = s'"
    using \<open>last_caret_target_tick s' = last_caret_target_tick s\<close> [symmetric] by simp
  ultimately show ?thesis
    by (simp add: use_mouse_def split: option.splits)
qed

lemma use_focus_same_signals:
  assumes "same_signals s' s"
  shows "use_focus e sp s' t =
     (fst (use_focus e sp s t),
      s'\<lparr>last_caret_target_tick := last_caret_target_tick (fst (snd (use_focus e sp s t)))\<rparr>,
      snd (snd (use_focus e sp s t)))"
proof -
  have "rect_center_to_source e s' (focus_rect s') = rect_center_to_source e s (focus_rect s')"
    unfolding rect_center_to_source_def
    by (rule ScreenToSource_cong) (use assms in \<open>simp add: same_signals_def\<close>)
  then have "rect_center_to_source e s' (focus_rect s') = rect_center_to_source e s (focus_rect s)"
    using assms by (simp add: same_signals_def)
  moreover have "last_focus_tick s' = last_focus_tick s"
    "last_caret_target_tick s' = last_caret_target_tick s"
    using assms by (simp_all add: same_signals_def)
  moreover have "s'\<lparr>last_caret_target_tick := last_caret_target_tick s\<rparr> = s'"
    using \<open>last_caret_target_tick s' = last_caret_target_tick s\<close> [symmetric] by simp
  ultimately show ?thesis
    by (simp add: use_focus_def split: option.splits)
qed

lemma use_frames:
  "fst (snd (use_caret e sp s t))
     = s\<lparr>last_caret_target_tick := last_caret_target_tick (fst (snd (use_caret e sp s t)))\<rparr>"
  "fst (snd (use_mouse e sp s t))
     = s\<lparr>last_caret_target_tick := last_caret_target_tick (fst (snd (use_mouse e sp s t)))\<rparr>"
  "fst (snd (use_focus e sp s t)) = s"
  by (simp_all add: use_caret_def use_mouse_def use_focus_def Let_def split: option.splits)

lemma same_signals_update:
  "same_signals s' s \<Longrightarrow>
     same_signals (s'\<lparr>last_caret_target_tick := v\<rparr>) (s\<lparr>last_caret_target_tick := v\<rparr>)"
  by (simp add: same_signals_def)

lemma same_signals_after:
  assumes "same_signals s' s"
  shows "same_signals
           (s'\<lparr>last_caret_target_tick := last_caret_target_tick (fst (snd (use_caret e sp s t)))\<rparr>)
           (fst (snd (use_caret e sp s t)))"
    "same_signals
           (s'\<lparr>last_caret_target_tick := last_caret_target_tick (fst (snd (use_mouse e sp s t)))\<rparr>)
           (fst (snd (use_mouse e sp s t)))"
  by (subst (2) use_frames, rule same_signals_update [OF assms])+

lemma select_target_same_signals:
  assumes "same_signals s' s"
  shows "select_target e sp s' =
           (s'\<lparr>last_caret_target_tick := last_caret_target_tick (fst (select_target e sp s))\<rparr>,
            snd (select_target e sp s))"
proof -
  have keep: "s'\<lparr>last_caret_target_tick := last_caret_target_tick s\<rparr> = s'"
    using assms by (simp add: same_signals_def [of s' s] eq_commute [of "last_caret_target_tick s'"])
  let ?t0 = "default_target e"
  obtain ok1 s1 t1 where u1: "use_caret e sp s ?t0 = (ok1, s1, t1)"
    by (cases "use_caret e sp s ?t0") auto
  have c: "use_caret e sp s' ?t0 = (ok1, s'\<lparr>last_caret_target_tick := last_caret_target_tick s1\<rparr>, t1)"
    using use_caret_same_signals [OF assms, of e sp ?t0] by (simp add: u1)
  have r1: "same_signals (s'\<lparr>last_caret_target_tick := last_caret_target_tick s1\<rparr>) s1"
    using same_signals_after(1) [OF assms, of e sp ?t0] by (simp add: u1)
  obtain ok2 s2 t2 where u2: "use_mouse e sp s1 t1 = (ok2, s2, t2)"
    by (cases "use_mouse e sp s1 t1") auto
  have m: "use_mouse e sp (s'\<lparr>last_caret_target_tick := last_caret_target_tick s1\<rparr>) t1
             = (ok2, s'\<lparr>last_caret_target_tick := last_caret_target_tick s2\<rparr>, t2)"
    using use_mouse_same_signals [OF r1, of e sp t1] by (simp add: u2)
  have r2: "same_signals (s'\<lparr>last_caret_target_tick := last_caret_target_tick s2\<rparr>) s2"
    using same_signals_after(2) [OF r1, of e sp t1] by (simp add: u2)
  obtain ok3 s3 t3 where u3: "use_focus e sp s2 t2 = (ok3, s3, t3)"
    by (cases "use_focus e sp s2 t2") auto
  have s3: "s3 = s2" using use_frames(3) [of e sp s2 t2] by (simp add: u3)
  have f: "use_focus e sp (s'\<lparr>last_caret_target_tick := last_caret_target_tick s2\<rparr>) t2
             = (ok3, s'\<lparr>last_caret_target_tick := last_caret_target_tick s2\<rparr>, t3)"
    using use_focus_same_signals [OF r2, of e sp t2] by (simp add: u3 s3)
  obtain okm sm tm where um: "use_mouse e sp s ?t0 = (okm, sm, tm)"
    by (cases "use_mouse e sp s ?t0") auto
  have m': "use_mouse e sp s' ?t0 = (okm, s'\<lparr>last_caret_target_tick := last_caret_target_tick sm\<rparr>, tm)"
    using use_mouse_same_signals [OF assms, of e sp ?t0] by (simp add: um)
  obtain okf sf tf where uf: "use_focus e sp s ?t0 = (okf, sf, tf)"
    by (cases "use_focus e sp s ?t0") auto
  have sf: "sf = s" using use_frames(3) [of e sp s ?t0] by (simp add: uf)
  have f': "use_focus e sp s' ?t0 = (okf, s', tf)"
    using use_focus_same_signals [OF assms, of e sp ?t0] by (simp add: uf sf keep)
  have mode: "tracking_mode s' = tracking_mode s" using assms by (simp add: same_signals_def)
  show ?thesis
    by (cases "tracking_mode s")
       (simp_all add: select_target_def mode u1 c u2 m u3 f s3 um m' uf f' sf keep)
qed

lemma same_signals_prelude:
  "same_signals (place_cursor e (expire_putty_anchor e (reset_overlay s))) s"
  by (simp add: same_signals_def)

lemma select_target_prelude:
  "snd (select_target e sp (place_cursor e (expire_putty_anchor e (reset_overlay s))))
     = snd (select_target e sp s)"
  "fst (select_target e sp (place_cursor e (expire_putty_anchor e (reset_overlay s))))
     = (place_cursor e (expire_putty_anchor e (reset_overlay s)))
         \<lparr>last_caret_target_tick := last_caret_target_tick (fst (select_target e sp s))\<rparr>"
  by (simp_all add: select_target_same_signals [OF same_signals_prelude])


section \<open>The caret snap and the held centre\<close>








section \<open>The dead zone\<close>








lemma select_target_mouse_mode:
  assumes "tracking_mode s = Mouse" "pointer_fresh e s"
    "ScreenToSource e s (mouse_position s) = Some m"
  shows "select_target e False s =
           (s, \<lparr>target = m, have_target = True, target_is_caret = False\<rparr>)"
proof -
  have "\<not> now e - last_mouse_tick s > kMouseFollowTimeoutMs"
    using assms(2) by (simp add: pointer_fresh_def not_less)
  then show ?thesis
    using assms(1,3) by (simp add: select_target_def use_mouse_def default_target_def Let_def)
qed






























section \<open>The click limit\<close>

lemma click_limit_cong:
  "last_click_tick s' = last_click_tick s \<Longrightarrow> click_limit e s' = click_limit e s"
  by (simp add: click_limit_def)














lemma messenger_zone_frame [simp]:
  "click_lock_active (messenger_zone e pt s) = click_lock_active s"
  "has_last_click (messenger_zone e pt s) = has_last_click s"
  "last_click_tick (messenger_zone e pt s) = last_click_tick s"
  "last_click_source (messenger_zone e pt s) = last_click_source s"
  "last_click_position (messenger_zone e pt s) = last_click_position s"
  "mouse_position (messenger_zone e pt s) = mouse_position s"
  by (simp_all add: messenger_zone_def Let_def split: option.splits)





section \<open>A click on the example monitor\<close>




















section \<open>The source region at the right edge\<close>

lemma f32_7_2: "f32 (7 / 2) = 7 / 2"
  using f32_normal [of 1 "7 / 2"]
  by (simp add: round_half_even_def Let_def power_int_minus)

lemma f32_3_2: "f32 (3 / 2) = 3 / 2"
  using f32_normal [of 0 "3 / 2"]
  by (simp add: round_half_even_def Let_def power_int_minus)

lemma f32_view_width_7_2: "f32 (3840 / 7) = 4493897 / 8192"
  using f32_normal [of 9 "3840 / 7"]
  by (simp add: round_half_even_def Let_def power_int_minus)

lemma f32_view_height_7_2: "f32 (2160 / 7) = 10111269 / 32768"
  using f32_normal [of 8 "2160 / 7"]
  by (simp add: round_half_even_def Let_def power_int_minus)

lemma f32_half_w_7_2: "f32 (4493897 / 16384) = 4493897 / 16384"
  using f32_normal [of 8 "4493897 / 16384"]
  by (simp add: round_half_even_def Let_def power_int_minus)

lemma f32_half_h_7_2: "f32 (10111269 / 65536) = 10111269 / 65536"
  using f32_normal [of 7 "10111269 / 65536"]
  by (simp add: round_half_even_def Let_def power_int_minus)

lemma f32_max_x_7_2: "f32 (26963383 / 16384) = 3370423 / 2048"
  using f32_normal [of 10 "26963383 / 16384"]
  by (simp add: round_half_even_def Let_def power_int_minus)

lemma f32_max_y_7_2: "f32 (60667611 / 65536) = 15166903 / 16384"
  using f32_normal [of 9 "60667611 / 65536"]
  by (simp add: round_half_even_def Let_def power_int_minus)

lemma f32_left_7_2: "f32 (22469487 / 16384) = 1404343 / 1024"
  using f32_normal [of 10 "22469487 / 16384"]
  by (simp add: round_half_even_def Let_def power_int_minus)

lemma f32_top_7_2: "f32 (25278171 / 65536) = 6319543 / 16384"
  using f32_normal [of 8 "25278171 / 65536"]
  by (simp add: round_half_even_def Let_def power_int_minus)

lemma f32_right_7_2: "f32 (15728641 / 8192) = 15728641 / 8192"
  using f32_normal [of 10 "15728641 / 8192"]
  by (simp add: round_half_even_def Let_def power_int_minus)

lemma f32_bottom_7_2: "f32 (22750355 / 32768) = 5687589 / 8192"
  using f32_normal [of 9 "22750355 / 32768"]
  by (simp add: round_half_even_def Let_def power_int_minus)


lemma app_edge_eq:
  "app_edge =
     app_edge_start\<lparr>zoom := 7/2, config_zoom := 7/2, config_saves := 1, has_center := False,
                    layout_overlay := Some (350, 1000)\<rparr>"
  by (simp add: app_edge_def ChangeZoom_def app_edge_start_def f32_7_2 f32_3_2 f32_thousandth
        std_clamp_def kMinZoom_def kMaxZoom_def lround_def float_literals Let_def)

lemma view_rectangle_zoom_7_2:
  assumes "zoom s = 7/2" "desc_Width e = 1920" "desc_Height e = 1080"
  shows "frame_width e = 1920" "frame_height e = 1080"
    "view_width e s = 4493897 / 8192" "view_height e s = 10111269 / 32768"
    "half_w e s = 4493897 / 16384" "half_h e s = 10111269 / 65536"
  unfolding frame_width_def frame_height_def view_width_def view_height_def
    half_w_def half_h_def assms
  by (simp_all add: float_literals f32_view_width_7_2 f32_view_height_7_2
        f32_half_w_7_2 f32_half_h_7_2)

lemma edge_fields:
  "resolution_runs at_10000 app_edge" "no_end_key at_10000 app_edge"
  "\<not> has_center app_edge" "\<not> click_lock_active app_edge" "zoom app_edge = 7/2"
  "\<not> messenger_zone_active app_edge" "tracking_mode app_edge = Mouse"
  "mouse_position app_edge = \<lparr>pt_x = 1919, pt_y = 540\<rparr>" "source_index app_edge = 0"
  by (simp_all add: resolution_runs_def no_end_key_def app_edge_eq app_edge_start_def)

lemma edge_target:
  "select_target at_10000 False app_edge =
     (app_edge, \<lparr>target = \<lparr>fp_x = 1919, fp_y = 540\<rparr>, have_target = True,
                   target_is_caret = False\<rparr>)"
proof -
  have "ScreenToSource at_10000 app_edge (mouse_position app_edge)
          = Some \<lparr>fp_x = 1919, fp_y = 540\<rparr>"
    using ScreenToSource_1080p [of app_edge at_10000 1919 540] by (simp add: edge_fields)
  moreover have "pointer_fresh at_10000 app_edge"
    by (simp add: pointer_fresh_def kMouseFollowTimeoutMs_def app_edge_eq app_edge_start_def)
  ultimately show ?thesis
    by (intro select_target_mouse_mode) (simp_all add: edge_fields)
qed

text \<open>
  Claim C1 at a concrete frame. The frame is 1920 by 1080 and the zoom 3.5. The view is
  548.5714 wide in single precision and its half 274.2857; the upper bound of the centre,
  1920 minus the half, rounds up to 1645.71436, so that the left edge plus the width is
  1920.00012 and its ceiling 1921: the region ends one pixel beyond the frame.
\<close>

theorem source_region_exceeds_frame:
  "zoom app_edge = 7/2 \<and> desc_Width at_10000 = 1920 \<and> desc_Height at_10000 = 1080
   \<and> current_center_x (UpdateViewState at_10000 app_edge) = 3370423 / 2048
   \<and> current_center_y (UpdateViewState at_10000 app_edge) = 540
   \<and> source_region (view_state (UpdateViewState at_10000 app_edge))
       = \<lparr>r_left = 1371, r_top = 385, r_right = 1921, r_bottom = 695\<rparr>"
proof -
  let ?e = at_10000
  let ?pre = "place_cursor ?e (expire_putty_anchor ?e (reset_overlay app_edge))"
  let ?s3 = "?pre\<lparr>last_caret_target_tick := last_caret_target_tick app_edge\<rparr>"
  let ?t = "\<lparr>target = \<lparr>fp_x = 1919, fp_y = 540\<rparr>, have_target = True,
             target_is_caret = False\<rparr>"
  let ?m = "?s3\<lparr>current_center_x := 1919, current_center_y := 540, has_center := True\<rparr>"
  have mv: "move_center ?e ?t ?s3 = ?m"
    by (simp add: move_center_first edge_fields)
  have u: "UpdateViewState ?e app_edge
             = write_source_region ?e (frame_clamp ?e (messenger_clamp ?e ?m))"
    by (simp add: UpdateViewState_no_end_key [OF edge_fields(1,2)] select_target_prelude
          edge_target mv)
  have mc: "messenger_clamp ?e ?m = ?m"
    by (simp add: messenger_clamp_def edge_fields)
  have c: "current_center_x (frame_clamp ?e ?m) = 3370423 / 2048"
    "current_center_y (frame_clamp ?e ?m) = 540"
    by (simp_all add: frame_clamp_def view_rectangle_zoom_7_2 [OF edge_fields(5)] std_clamp_def
          f32_max_x_7_2 f32_max_y_7_2)
  have r: "source_region (view_state (write_source_region ?e (frame_clamp ?e ?m)))
       = \<lparr>r_left = 1371, r_top = 385, r_right = 1921, r_bottom = 695\<rparr>"
    by (simp add: write_source_region_def Let_def view_rectangle_zoom_7_2 [OF edge_fields(5)] c
          f32_left_7_2 f32_top_7_2 f32_right_7_2 f32_bottom_7_2)
  have "current_center_x (write_source_region ?e (frame_clamp ?e ?m)) = 3370423 / 2048"
    "current_center_y (write_source_region ?e (frame_clamp ?e ?m)) = 540"
    using c by simp_all
  with r show ?thesis
    by (simp add: u mc edge_fields)
qed


section \<open>The cursor glyph\<close>

lemma crop_extent_exact:
  assumes "region_exact st"
  shows "crop_width st = of_int (r_right (source_region st) - r_left (source_region st))"
    "crop_height st = of_int (r_bottom (source_region st) - r_top (source_region st))"
    "f32 (of_int (r_left (source_region st))) = of_int (r_left (source_region st))"
    "f32 (of_int (r_right (source_region st))) = of_int (r_right (source_region st))"
    "f32 (of_int (r_top (source_region st))) = of_int (r_top (source_region st))"
    "f32 (of_int (r_bottom (source_region st))) = of_int (r_bottom (source_region st))"
proof -
  show "crop_width st = of_int (r_right (source_region st) - r_left (source_region st))"
    unfolding crop_width_def
    by (rule f32_of_int) (use assms in \<open>simp add: region_exact_def\<close>)
  show "crop_height st = of_int (r_bottom (source_region st) - r_top (source_region st))"
    unfolding crop_height_def
    by (rule f32_of_int) (use assms in \<open>simp add: region_exact_def\<close>)
  show "f32 (of_int (r_left (source_region st))) = of_int (r_left (source_region st))"
    "f32 (of_int (r_right (source_region st))) = of_int (r_right (source_region st))"
    "f32 (of_int (r_top (source_region st))) = of_int (r_top (source_region st))"
    "f32 (of_int (r_bottom (source_region st))) = of_int (r_bottom (source_region st))"
    using assms by (simp_all add: region_exact_def f32_of_int)
qed

lemma DrawCursor_drawn:
  "DrawCursor w st \<noteq> None \<longleftrightarrow>
     glyph_visible w \<and> cursor_srv w \<and> pointer_vertex_buffer w
     \<and> 0 < crop_width st \<and> 0 < crop_height st
     \<and> f32 (of_int (r_left (source_region st))) \<le> cursor_x st
     \<and> cursor_x st \<le> f32 (of_int (r_right (source_region st)))
     \<and> f32 (of_int (r_top (source_region st))) \<le> cursor_y st
     \<and> cursor_y st \<le> f32 (of_int (r_bottom (source_region st)))
     \<and> \<not> quad_outside_window w st"
  by (auto simp: DrawCursor_def quad_outside_window_def Let_def split: prod.splits)

lemma DrawCursor_result:
  "DrawCursor w st \<noteq> None \<Longrightarrow> DrawCursor w st = Some (cursor_quad w st)"
  by (auto simp: DrawCursor_def Let_def split: prod.splits if_splits)

lemma DrawCursor_point_outside:
  assumes "region_exact st" "\<not> cursor_in_crop st"
  shows "DrawCursor w st = None"
proof -
  have "\<not> (f32 (of_int (r_left (source_region st))) \<le> cursor_x st
     \<and> cursor_x st \<le> f32 (of_int (r_right (source_region st)))
     \<and> f32 (of_int (r_top (source_region st))) \<le> cursor_y st
     \<and> cursor_y st \<le> f32 (of_int (r_bottom (source_region st))))"
    using assms(2) unfolding crop_extent_exact [OF assms(1)] cursor_in_crop_def .
  then show ?thesis using DrawCursor_drawn [of w st] by blast
qed

lemma glyph_holds_cursor:
  assumes "hotspot_in_glyph w" "cursor_in_crop st"
  shows "glyph_overlaps_crop w st"
proof -
  have "(0::real) \<le> of_int (pt_x (cursor_hotspot w))"
    "(of_int (pt_x (cursor_hotspot w)) :: real) \<le> of_int (sz_cx (cursor_size w))"
    "(0::real) \<le> of_int (pt_y (cursor_hotspot w))"
    "(of_int (pt_y (cursor_hotspot w)) :: real) \<le> of_int (sz_cy (cursor_size w))"
    using assms(1) by (simp_all add: hotspot_in_glyph_def)
  with assms(2) show ?thesis
    by (simp add: glyph_overlaps_crop_def cursor_in_crop_def)
qed

lemma cursor_quad_position:
  assumes "region_exact st" "glyph_exact w"
  shows "fst (cursor_quad w st) =
           f32 (f32 (f32 (cursor_x st - of_int (r_left (source_region st)))
                     - of_int (pt_x (cursor_hotspot w)))
                * f32 (of_int (sz_cx (window_size w))
                       / of_int (r_right (source_region st) - r_left (source_region st))))"
    and "fst (snd (cursor_quad w st)) =
           f32 (f32 (f32 (cursor_y st - of_int (r_top (source_region st)))
                     - of_int (pt_y (cursor_hotspot w)))
                * f32 (of_int (sz_cy (window_size w))
                       / of_int (r_bottom (source_region st) - r_top (source_region st))))"
proof -
  have g: "f32 (of_int (pt_x (cursor_hotspot w))) = of_int (pt_x (cursor_hotspot w))"
    "f32 (of_int (pt_y (cursor_hotspot w))) = of_int (pt_y (cursor_hotspot w))"
    "f32 (of_int (sz_cx (window_size w))) = of_int (sz_cx (window_size w))"
    "f32 (of_int (sz_cy (window_size w))) = of_int (sz_cy (window_size w))"
    using assms(2) by (simp_all add: glyph_exact_def f32_of_int)
  show "fst (cursor_quad w st) =
           f32 (f32 (f32 (cursor_x st - of_int (r_left (source_region st)))
                     - of_int (pt_x (cursor_hotspot w)))
                * f32 (of_int (sz_cx (window_size w))
                       / of_int (r_right (source_region st) - r_left (source_region st))))"
    unfolding cursor_quad_def Let_def crop_extent_exact [OF assms(1)] g by simp
  show "fst (snd (cursor_quad w st)) =
           f32 (f32 (f32 (cursor_y st - of_int (r_top (source_region st)))
                     - of_int (pt_y (cursor_hotspot w)))
                * f32 (of_int (sz_cy (window_size w))
                       / of_int (r_bottom (source_region st) - r_top (source_region st))))"
    unfolding cursor_quad_def Let_def crop_extent_exact [OF assms(1)] g by simp
qed

lemma DrawCursor_drawn_exact:
  assumes "region_exact st"
  shows "DrawCursor w st \<noteq> None \<longleftrightarrow>
     glyph_visible w \<and> cursor_srv w \<and> pointer_vertex_buffer w
     \<and> r_left (source_region st) < r_right (source_region st)
     \<and> r_top (source_region st) < r_bottom (source_region st)
     \<and> cursor_in_crop st \<and> \<not> quad_outside_window w st"
  unfolding DrawCursor_drawn cursor_in_crop_def crop_extent_exact [OF assms] by simp

text \<open>
  Claim C8, as the code has it. With the coordinates of the region and the sizes of the
  window exact as floats, the glyph is drawn exactly when the cursor texture and its
  vertex buffer are there, the crop is not empty, the position of the cursor lies in the
  crop (edges included) and the scaled rectangle of the glyph does not miss the window; it
  is then handed to \<open>DrawTexturedQuad\<close> at the position of the cursor less the origin of
  the crop and the hotspot, times the ratio of the window to the crop. A cursor whose
  position lies outside the crop is skipped, and so is every glyph that does not meet the
  crop, when its hotspot lies within it.
\<close>

theorem DrawCursor_skips_and_places:
  "region_exact st \<and> glyph_exact w \<longrightarrow>
     (DrawCursor w st \<noteq> None \<longleftrightarrow>
        glyph_visible w \<and> cursor_srv w \<and> pointer_vertex_buffer w
        \<and> r_left (source_region st) < r_right (source_region st)
        \<and> r_top (source_region st) < r_bottom (source_region st)
        \<and> cursor_in_crop st \<and> \<not> quad_outside_window w st)
     \<and> (DrawCursor w st \<noteq> None \<longrightarrow> DrawCursor w st = Some (cursor_quad w st))
     \<and> fst (cursor_quad w st) =
           f32 (f32 (f32 (cursor_x st - of_int (r_left (source_region st)))
                     - of_int (pt_x (cursor_hotspot w)))
                * f32 (of_int (sz_cx (window_size w))
                       / of_int (r_right (source_region st) - r_left (source_region st))))
     \<and> fst (snd (cursor_quad w st)) =
           f32 (f32 (f32 (cursor_y st - of_int (r_top (source_region st)))
                     - of_int (pt_y (cursor_hotspot w)))
                * f32 (of_int (sz_cy (window_size w))
                       / of_int (r_bottom (source_region st) - r_top (source_region st))))
     \<and> (\<not> cursor_in_crop st \<longrightarrow> DrawCursor w st = None)
     \<and> (hotspot_in_glyph w \<and> \<not> glyph_overlaps_crop w st \<longrightarrow> DrawCursor w st = None)"
proof (intro impI)
  assume h: "region_exact st \<and> glyph_exact w"
  then have r: "region_exact st" and g: "glyph_exact w" by simp_all
  have "hotspot_in_glyph w \<and> \<not> glyph_overlaps_crop w st \<longrightarrow> DrawCursor w st = None"
    using glyph_holds_cursor [of w st] DrawCursor_point_outside [OF r, of w] by blast
  then show "(DrawCursor w st \<noteq> None \<longleftrightarrow>
        glyph_visible w \<and> cursor_srv w \<and> pointer_vertex_buffer w
        \<and> r_left (source_region st) < r_right (source_region st)
        \<and> r_top (source_region st) < r_bottom (source_region st)
        \<and> cursor_in_crop st \<and> \<not> quad_outside_window w st)
     \<and> (DrawCursor w st \<noteq> None \<longrightarrow> DrawCursor w st = Some (cursor_quad w st))
     \<and> fst (cursor_quad w st) =
           f32 (f32 (f32 (cursor_x st - of_int (r_left (source_region st)))
                     - of_int (pt_x (cursor_hotspot w)))
                * f32 (of_int (sz_cx (window_size w))
                       / of_int (r_right (source_region st) - r_left (source_region st))))
     \<and> fst (snd (cursor_quad w st)) =
           f32 (f32 (f32 (cursor_y st - of_int (r_top (source_region st)))
                     - of_int (pt_y (cursor_hotspot w)))
                * f32 (of_int (sz_cy (window_size w))
                       / of_int (r_bottom (source_region st) - r_top (source_region st))))
     \<and> (\<not> cursor_in_crop st \<longrightarrow> DrawCursor w st = None)
     \<and> (hotspot_in_glyph w \<and> \<not> glyph_overlaps_crop w st \<longrightarrow> DrawCursor w st = None)"
    using DrawCursor_drawn_exact [OF r, of w] DrawCursor_result [of w st]
      cursor_quad_position [OF r g] DrawCursor_point_outside [OF r, of w]
    by blast
qed

lemma arrow_quad: "cursor_quad arrow_window crop_cursor_inside = (500, 500, 820, 820)"
  by (simp add: cursor_quad_def crop_width_def crop_height_def arrow_window_def
        crop_cursor_inside_def Let_def float_literals)

theorem DrawCursor_skips_and_places_witness:
  "glyph_overlaps_crop arrow_window crop_cursor_inside
   \<and> DrawCursor arrow_window crop_cursor_inside = Some (500, 500, 820, 820)
   \<and> \<not> glyph_overlaps_crop arrow_window crop_cursor_away
   \<and> DrawCursor arrow_window crop_cursor_away = None"
proof -
  have e: "region_exact crop_cursor_inside" "region_exact crop_cursor_away"
    "glyph_exact arrow_window" "hotspot_in_glyph arrow_window"
    by (simp_all add: region_exact_def glyph_exact_def hotspot_in_glyph_def arrow_window_def
          crop_cursor_inside_def crop_cursor_away_def)
  have i: "cursor_in_crop crop_cursor_inside"
    "glyph_overlaps_crop arrow_window crop_cursor_inside"
    "\<not> glyph_overlaps_crop arrow_window crop_cursor_away"
    by (simp_all add: cursor_in_crop_def glyph_overlaps_crop_def arrow_window_def
          crop_cursor_inside_def crop_cursor_away_def)
  have q: "\<not> quad_outside_window arrow_window crop_cursor_inside"
    by (simp add: quad_outside_window_def arrow_quad) (simp add: arrow_window_def float_literals)
  have v: "glyph_visible arrow_window" "cursor_srv arrow_window"
    "pointer_vertex_buffer arrow_window"
    "r_left (source_region crop_cursor_inside) < r_right (source_region crop_cursor_inside)"
    "r_top (source_region crop_cursor_inside) < r_bottom (source_region crop_cursor_inside)"
    by (simp_all add: arrow_window_def crop_cursor_inside_def)
  from DrawCursor_skips_and_places [of crop_cursor_inside arrow_window] e i q v
  have "DrawCursor arrow_window crop_cursor_inside
          = Some (cursor_quad arrow_window crop_cursor_inside)"
    by blast
  moreover from DrawCursor_skips_and_places [of crop_cursor_away arrow_window] e i
  have "DrawCursor arrow_window crop_cursor_away = None"
    by blast
  ultimately show ?thesis using i by (simp add: arrow_quad)
qed

text \<open>
  The cursor stands one pixel left of the crop: its glyph, 32 pixels wide from the hotspot,
  covers 31 columns of the crop, and \<open>DrawCursor\<close> returns without drawing.
\<close>

theorem glyph_overlapping_skipped_counterexample:
  "source_region crop_cursor_beside
     = \<lparr>r_left = 100, r_top = 100, r_right = 200, r_bottom = 200\<rparr>
   \<and> cursor_x crop_cursor_beside = 99 \<and> cursor_y crop_cursor_beside = 150
   \<and> cursor_hotspot arrow_window = \<lparr>pt_x = 0, pt_y = 0\<rparr>
   \<and> cursor_size arrow_window = \<lparr>sz_cx = 32, sz_cy = 32\<rparr>
   \<and> glyph_visible arrow_window \<and> cursor_srv arrow_window \<and> pointer_vertex_buffer arrow_window
   \<and> glyph_overlaps_crop arrow_window crop_cursor_beside
   \<and> DrawCursor arrow_window crop_cursor_beside = None"
  by (simp add: DrawCursor_def glyph_overlaps_crop_def crop_width_def crop_height_def
        arrow_window_def crop_cursor_beside_def crop_cursor_inside_def float_literals)


section \<open>A zoom step and the resolution after it\<close>




















end
